theory Spec2Isabelle
  imports Main "HOL-Library.Sublist"
begin

section \<open>The Code-With-Us opportunity store\<close>

text \<open>
  A shallow embedding of the database access layer for Code-With-Us opportunities
  (\<^verbatim>\<open>src/unnamed/part_000\<close>). A database is a record of tables, a table is the list
  of its rows in insertion order, and a query is a list comprehension over the tables.
  The rows of a query come in the order of the comprehension, and \<^verbatim>\<open>.first()\<close> takes the
  first of them. A thrown \<^verbatim>\<open>Error\<close> is the left summand of a sum type; \<^verbatim>\<open>tryDb\<close> turns
  it into an invalid result. A query is evaluated on the tables and does not fail; a
  write statement fails when its environment says so. The source's field \<^verbatim>\<open>id\<close> is
  written with the table's prefix (\<open>opp_id\<close>, \<open>ver_id\<close>, ...), as is every other column.
\<close>

subsection \<open>Identifiers, dates, users and sessions\<close>

type_synonym Id = string

text \<open>A \<^verbatim>\<open>Date\<close> is its number of milliseconds since the epoch.\<close>

type_synonym Date = int

datatype UserType = Vendor | Government | Admin

datatype UserStatus = Active | InactiveByUser | InactiveByAdmin

record User =
  user_id :: Id
  user_type :: UserType
  user_status :: UserStatus
  user_name :: string
  user_email :: "string option"
  user_avatarImageUrl :: "string option"
  user_notificationsOn :: bool
  user_acceptedTerms :: bool
  user_idpUsername :: string

text \<open>A session is anonymous when it carries no user.\<close>

record Session =
  session_user :: "User option"

text \<open>
  Modelled from the spec: the types \<^verbatim>\<open>UserSlim\<close> and \<^verbatim>\<open>FileRecord\<close> and the enums
  \<^verbatim>\<open>CWUOpportunityStatus\<close>, \<^verbatim>\<open>CWUOpportunityEvent\<close> and \<^verbatim>\<open>CWUProposalStatus\<close> are
  declared in \<^verbatim>\<open>shared/lib/resources\<close>, which is not among the sources. The enums have
  the members that the source and the data model name; \<open>OtherStatus\<close> and
  \<open>OtherProposalStatus\<close> stand for any further member.
\<close>

record UserSlim =
  us_id :: Id
  us_name :: string

record FileRecord =
  file_id :: Id
  file_name :: string

datatype CWUOpportunityStatus = Draft | Published | Evaluation | Awarded | OtherStatus string

datatype CWUOpportunityEvent = Edited | AddendumAdded

datatype CWUProposalStatus = Submitted | UnderReview | OtherProposalStatus string

subsection \<open>Results\<close>

text \<open>
  Modelled from the spec: \<^verbatim>\<open>tryDb\<close> (\<^verbatim>\<open>back-end/lib/db\<close>) and the validation type
  (\<^verbatim>\<open>shared/lib/validation\<close>) are not among the sources. Errors surface as thrown
  exceptions caught by a wrapping result type: a body that throws yields \<open>Invalid\<close>.
\<close>

datatype 'a Validation = Valid 'a | Invalid

definition tryDb :: "string + 'a \<Rightarrow> 'a Validation" where
  "tryDb body = (case body of Inl e \<Rightarrow> Invalid | Inr v \<Rightarrow> Valid v)"

definition getValidValue :: "'a Validation \<Rightarrow> 'a \<Rightarrow> 'a" where
  "getValidValue v d = (case v of Valid x \<Rightarrow> x | Invalid \<Rightarrow> d)"

definition isInvalid :: "'a Validation \<Rightarrow> bool" where
  "isInvalid v = (case v of Valid x \<Rightarrow> False | Invalid \<Rightarrow> True)"

text \<open>\<^verbatim>\<open>Promise.all(xs.map(f))\<close>: the results in order, or the first rejection.\<close>

fun promiseAll :: "('a \<Rightarrow> string + 'b) \<Rightarrow> 'a list \<Rightarrow> string + 'b list" where
  "promiseAll f [] = Inr []"
| "promiseAll f (x # xs) =
     (case f x of
        Inl e \<Rightarrow> Inl e
      | Inr y \<Rightarrow> (case promiseAll f xs of Inl e \<Rightarrow> Inl e | Inr ys \<Rightarrow> Inr (y # ys)))"

text \<open>\<^verbatim>\<open>.first()\<close> of a query: its first row, if it has one.\<close>

fun first :: "'a list \<Rightarrow> 'a option" where
  "first [] = None"
| "first (x # xs) = Some x"

subsection \<open>Tables\<close>

record RootOpportunityRecord =
  opp_id :: Id
  opp_createdAt :: Date
  opp_createdBy :: Id

text \<open>
  The editable content of an opportunity: the columns that a version row carries besides
  its own identity, and that the source passes around as \<^verbatim>\<open>...restOfOpportunity\<close>.
\<close>

record VersionContent =
  title :: string
  teaser :: string
  remoteOk :: bool
  remoteDesc :: string
  location :: string
  reward :: int
  skills :: "string list"
  description :: string
  proposalDeadline :: Date
  assignmentDate :: Date
  startDate :: Date
  completionDate :: "Date option"
  submissionInfo :: string
  acceptanceCriteria :: string
  evaluationCriteria :: string

record OpportunityVersionRecord =
  ver_id :: Id
  ver_opportunity :: Id
  ver_createdAt :: Date
  ver_createdBy :: Id
  ver_content :: VersionContent

text \<open>
  A row of \<^verbatim>\<open>cwuOpportunityStatuses\<close> is a status row (\<open>hist_status\<close> is set) or an
  event row (\<open>hist_event\<close> is set); a column that an insert leaves out is null.
\<close>

record RawCWUOpportunityHistoryRecord =
  hist_id :: Id
  hist_opportunity :: Id
  hist_createdAt :: Date
  hist_createdBy :: "Id option"
  hist_status :: "CWUOpportunityStatus option"
  hist_event :: "CWUOpportunityEvent option"
  hist_note :: string

record AttachmentRow =
  att_opportunityVersion :: Id
  att_file :: Id

record RawCWUOpportunityAddendum =
  add_id :: Id
  add_opportunity :: Id
  add_description :: string
  add_createdBy :: "Id option"
  add_createdAt :: Date

record RawCWUOpportunitySubscriber =
  sub_opportunity :: Id
  sub_user :: Id

record ViewCounter =
  counter_name :: string
  counter_count :: nat

record ProposalRow =
  prop_id :: Id
  prop_opportunity :: Id

record ProposalStatusRow =
  pst_id :: Id
  pst_proposal :: Id
  pst_createdAt :: Date
  pst_status :: "CWUProposalStatus option"
  pst_note :: string

record Database =
  cwuOpportunities :: "RootOpportunityRecord list"
  cwuOpportunityVersions :: "OpportunityVersionRecord list"
  cwuOpportunityStatuses :: "RawCWUOpportunityHistoryRecord list"
  cwuOpportunityAttachments :: "AttachmentRow list"
  cwuOpportunityAddenda :: "RawCWUOpportunityAddendum list"
  cwuOpportunitySubscribers :: "RawCWUOpportunitySubscriber list"
  viewCounters :: "ViewCounter list"
  cwuProposals :: "ProposalRow list"
  cwuProposalStatuses :: "ProposalStatusRow list"

text \<open>
  What the file imports from modules that are not among the sources, as parameters: the
  two status lists, and the helpers applied to the connection. Every theorem below holds
  for all of them.
\<close>

record Deps =
  publicOpportunityStatuses :: "CWUOpportunityStatus list"
  privateOpportunitiesStatuses :: "CWUOpportunityStatus list"
  readOneUserSlim :: "Database \<Rightarrow> Id \<Rightarrow> UserSlim option Validation"
  readOneFileById :: "Database \<Rightarrow> Id \<Rightarrow> FileRecord option Validation"
  readSubmittedCWUProposalCount :: "Database \<Rightarrow> Id \<Rightarrow> nat Validation"
  getCWUOpportunityViewsCounterName :: "Id \<Rightarrow> string"

subsection \<open>Resources\<close>

text \<open>
  The fields that \<^verbatim>\<open>CWUOpportunitySlim\<close>, \<^verbatim>\<open>CWUOpportunity\<close> and their raw forms share.
  A raw record holds user ids (\<open>'u = Id\<close>), a resource holds the users themselves;
  \<open>None\<close> is a field that is absent or undefined.
\<close>

record 'u OpportunityBase =
  r_id :: Id
  r_createdAt :: Date
  r_createdBy :: "'u option"
  r_updatedAt :: Date
  r_updatedBy :: "'u option"
  r_status :: "CWUOpportunityStatus option"

record 'u OpportunitySlim = "'u OpportunityBase" +
  r_title :: string
  r_proposalDeadline :: Date

type_synonym RawCWUOpportunitySlim = "Id OpportunitySlim"
type_synonym CWUOpportunitySlim = "UserSlim OpportunitySlim"

datatype HistoryType = StatusType CWUOpportunityStatus | EventType CWUOpportunityEvent

record CWUOpportunityHistoryRecord =
  h_id :: Id
  h_opportunity :: Id
  h_createdAt :: Date
  h_note :: string
  h_createdBy :: "UserSlim option"
  h_type :: HistoryType

record Addendum =
  a_id :: Id
  a_opportunity :: Id
  a_description :: string
  a_createdAt :: Date
  a_createdBy :: "UserSlim option"

record Reporting =
  numViews :: nat
  numWatchers :: nat
  numProposals :: nat

record ('u, 'f, 'a) Opportunity = "'u OpportunityBase" +
  r_versionId :: Id
  r_content :: VersionContent
  r_attachments :: "'f list"
  r_addenda :: "'a list"
  r_publishedAt :: "Date option"
  r_successfulProponent :: "bool option"
  r_subscribed :: "bool option"
  r_history :: "CWUOpportunityHistoryRecord list option"
  r_reporting :: "Reporting option"

type_synonym RawCWUOpportunity = "(Id, Id, Id) Opportunity"
type_synonym CWUOpportunity = "(UserSlim, FileRecord, Addendum) Opportunity"

subsection \<open>Query building blocks\<close>

text \<open>\<^verbatim>\<open>select max("createdAt")\<close> of a subquery: null when no row qualifies.\<close>

fun sqlMax :: "Date list \<Rightarrow> Date option" where
  "sqlMax [] = None"
| "sqlMax (d # ds) = Some (fold max ds d)"

text \<open>\<^verbatim>\<open>whereIn(column, values)\<close>: a null column is in no list.\<close>

definition whereIn :: "'s option \<Rightarrow> 's list \<Rightarrow> bool" where
  "whereIn c vs = (case c of None \<Rightarrow> False | Some v \<Rightarrow> v \<in> set vs)"

text \<open>
  The correlated subqueries of the joins. \<open>latestStatusAt\<close> has the condition
  \<^verbatim>\<open>stat2.status is not null\<close> (\<^verbatim>\<open>readOneCWUOpportunity\<close>, \<^verbatim>\<open>closeCWUOpportunities\<close>);
  \<open>latestHistoryAt\<close> is the subquery of \<^verbatim>\<open>readManyCWUOpportunities\<close>, which has not.
\<close>

definition latestStatusAt :: "Database \<Rightarrow> Id \<Rightarrow> Date option" where
  "latestStatusAt db oid =
     sqlMax [hist_createdAt stat2. stat2 \<leftarrow> cwuOpportunityStatuses db,
               hist_opportunity stat2 = oid \<and> hist_status stat2 \<noteq> None]"

definition latestHistoryAt :: "Database \<Rightarrow> Id \<Rightarrow> Date option" where
  "latestHistoryAt db oid =
     sqlMax [hist_createdAt stat2. stat2 \<leftarrow> cwuOpportunityStatuses db,
               hist_opportunity stat2 = oid]"

definition latestVersionAt :: "Database \<Rightarrow> Id \<Rightarrow> Date option" where
  "latestVersionAt db oid =
     sqlMax [ver_createdAt version2. version2 \<leftarrow> cwuOpportunityVersions db,
               ver_opportunity version2 = oid]"

text \<open>
  A user id that the source tests for truthiness before it reads the user: an absent id
  and the empty string resolve to no user, as does a read that is invalid or finds nobody.
\<close>

definition resolveUser :: "Deps \<Rightarrow> Database \<Rightarrow> Id option \<Rightarrow> UserSlim option" where
  "resolveUser deps db uid =
     (case uid of
        None \<Rightarrow> None
      | Some i \<Rightarrow> if i = [] then None else getValidValue (readOneUserSlim deps db i) None)"

subsection \<open>Raw records to resources\<close>

definition rawCWUOpportunityAddendumToCWUOpportunityAddendum ::
  "Deps \<Rightarrow> Database \<Rightarrow> RawCWUOpportunityAddendum \<Rightarrow> Addendum" where
  "rawCWUOpportunityAddendumToCWUOpportunityAddendum deps db raw =
     \<lparr>a_id = add_id raw, a_opportunity = add_opportunity raw,
      a_description = add_description raw, a_createdAt = add_createdAt raw,
      a_createdBy = resolveUser deps db (add_createdBy raw)\<rparr>"

definition readOneCWUOpportunityAddendum :: "Deps \<Rightarrow> Database \<Rightarrow> Id \<Rightarrow> Addendum Validation" where
  "readOneCWUOpportunityAddendum deps db i =
     tryDb (case first [row \<leftarrow> cwuOpportunityAddenda db. add_id row = i] of
              None \<Rightarrow> Inl ''unable to read addendum''
            | Some result \<Rightarrow> Inr (rawCWUOpportunityAddendumToCWUOpportunityAddendum deps db result))"

definition resolveAttachment :: "Deps \<Rightarrow> Database \<Rightarrow> Id \<Rightarrow> string + FileRecord" where
  "resolveAttachment deps db i =
     (case getValidValue (readOneFileById deps db i) None of
        None \<Rightarrow> Inl ''unable to process opportunity''
      | Some result \<Rightarrow> Inr result)"

definition resolveAddendum :: "Deps \<Rightarrow> Database \<Rightarrow> Id \<Rightarrow> string + Addendum" where
  "resolveAddendum deps db i =
     (case getValidValue (map_Validation Some (readOneCWUOpportunityAddendum deps db i)) None of
        None \<Rightarrow> Inl ''unable to retrieve addenda''
      | Some result \<Rightarrow> Inr result)"

text \<open>
  The rest of the raw record is copied when the function starts; deleting
  \<^verbatim>\<open>raw.versionId\<close> afterwards does not reach the copy, so the resource keeps it.
\<close>

definition rawCWUOpportunityToCWUOpportunity ::
  "Deps \<Rightarrow> Database \<Rightarrow> RawCWUOpportunity \<Rightarrow> string + CWUOpportunity" where
  "rawCWUOpportunityToCWUOpportunity deps db raw =
     (let createdBy = resolveUser deps db (r_createdBy raw);
          updatedBy = resolveUser deps db (r_updatedBy raw)
      in case promiseAll (resolveAttachment deps db) (r_attachments raw) of
           Inl e \<Rightarrow> Inl e
         | Inr attachments \<Rightarrow>
             (case promiseAll (resolveAddendum deps db) (r_addenda raw) of
                Inl e \<Rightarrow> Inl e
              | Inr addenda \<Rightarrow>
                  Inr \<lparr>r_id = r_id raw, r_createdAt = r_createdAt raw, r_createdBy = createdBy,
                       r_updatedAt = r_updatedAt raw, r_updatedBy = updatedBy,
                       r_status = r_status raw, r_versionId = r_versionId raw,
                       r_content = r_content raw, r_attachments = attachments,
                       r_addenda = addenda, r_publishedAt = r_publishedAt raw,
                       r_successfulProponent = r_successfulProponent raw,
                       r_subscribed = r_subscribed raw, r_history = r_history raw,
                       r_reporting = r_reporting raw\<rparr>))"

definition rawCWUOpportunitySlimToCWUOpportunitySlim ::
  "Deps \<Rightarrow> Database \<Rightarrow> RawCWUOpportunitySlim \<Rightarrow> CWUOpportunitySlim" where
  "rawCWUOpportunitySlimToCWUOpportunitySlim deps db raw =
     \<lparr>r_id = r_id raw, r_createdAt = r_createdAt raw,
      r_createdBy = resolveUser deps db (r_createdBy raw),
      r_updatedAt = r_updatedAt raw,
      r_updatedBy = resolveUser deps db (r_updatedBy raw),
      r_status = r_status raw, r_title = r_title raw,
      r_proposalDeadline = r_proposalDeadline raw\<rparr>"

definition rawCWUOpportunityHistoryRecordToCWUOpportunityHistoryRecord ::
  "Deps \<Rightarrow> Database \<Rightarrow> Session \<Rightarrow> RawCWUOpportunityHistoryRecord
     \<Rightarrow> string + CWUOpportunityHistoryRecord" where
  "rawCWUOpportunityHistoryRecordToCWUOpportunityHistoryRecord deps db session raw =
     (let createdBy = resolveUser deps db (hist_createdBy raw);
          restOfRaw = (\<lambda>t. \<lparr>h_id = hist_id raw, h_opportunity = hist_opportunity raw,
                            h_createdAt = hist_createdAt raw, h_note = hist_note raw,
                            h_createdBy = createdBy, h_type = t\<rparr>)
      in case hist_status raw of
           Some status \<Rightarrow> Inr (restOfRaw (StatusType status))
         | None \<Rightarrow>
             (case hist_event raw of
                Some event \<Rightarrow> Inr (restOfRaw (EventType event))
              | None \<Rightarrow> Inl ''unable to process opportunity status record''))"

text \<open>Remove \<^verbatim>\<open>createdBy\<close>/\<^verbatim>\<open>updatedBy\<close> for non-admin or non-author.\<close>

definition processForRole ::
  "(Id, 'z) OpportunityBase_scheme \<Rightarrow> Session \<Rightarrow> (Id, 'z) OpportunityBase_scheme" where
  "processForRole result session =
     (case session_user session of
        None \<Rightarrow> result\<lparr>r_createdBy := None, r_updatedBy := None\<rparr>
      | Some u \<Rightarrow>
          if user_type u \<noteq> Admin \<and> Some (user_id u) \<noteq> r_createdBy result
               \<and> Some (user_id u) \<noteq> r_updatedBy result
          then result\<lparr>r_createdBy := None, r_updatedBy := None\<rparr>
          else result)"

subsection \<open>Reading one opportunity\<close>

text \<open>The \<^verbatim>\<open>where\<close> clause that the session's role adds to the query of one opportunity.\<close>

definition readOneFilter ::
  "Deps \<Rightarrow> Session \<Rightarrow> RootOpportunityRecord \<Rightarrow> RawCWUOpportunityHistoryRecord \<Rightarrow> bool" where
  "readOneFilter deps session opp stat =
     (case session_user session of
        None \<Rightarrow> whereIn (hist_status stat) (publicOpportunityStatuses deps)
      | Some u \<Rightarrow>
          if user_type u = Vendor
          then whereIn (hist_status stat) (publicOpportunityStatuses deps)
          else if user_type u = Government
          then whereIn (hist_status stat) (publicOpportunityStatuses deps)
                 \<or> (whereIn (hist_status stat) (privateOpportunitiesStatuses deps)
                      \<and> opp_createdBy opp = user_id u)
          else whereIn (hist_status stat)
                 (publicOpportunityStatuses deps @ privateOpportunitiesStatuses deps))"

text \<open>
  The rows of the query: the root row with the given id, joined on the history rows
  created at the time of its latest status row, joined on the version rows created at the
  time of its latest version, filtered for the session.
\<close>

definition readOneQuery ::
  "Deps \<Rightarrow> Database \<Rightarrow> Id \<Rightarrow> Session
     \<Rightarrow> (RootOpportunityRecord \<times> RawCWUOpportunityHistoryRecord \<times> OpportunityVersionRecord) list" where
  "readOneQuery deps db i session =
     [(opp, stat, version).
        opp \<leftarrow> cwuOpportunities db,
        opp_id opp = i,
        stat \<leftarrow> cwuOpportunityStatuses db,
        hist_opportunity stat = opp_id opp
          \<and> Some (hist_createdAt stat) = latestStatusAt db (opp_id opp),
        version \<leftarrow> cwuOpportunityVersions db,
        ver_opportunity version = opp_id opp
          \<and> Some (ver_createdAt version) = latestVersionAt db (opp_id opp),
        readOneFilter deps session opp stat]"

text \<open>The \<^verbatim>\<open>select\<close> list; the fields that the query does not set are absent.\<close>

definition selectOpportunity ::
  "RootOpportunityRecord \<Rightarrow> RawCWUOpportunityHistoryRecord \<Rightarrow> OpportunityVersionRecord
     \<Rightarrow> RawCWUOpportunity" where
  "selectOpportunity opp stat version =
     \<lparr>r_id = opp_id opp, r_createdAt = opp_createdAt opp, r_createdBy = Some (opp_createdBy opp),
      r_updatedAt = ver_createdAt version, r_updatedBy = Some (ver_createdBy version),
      r_status = hist_status stat, r_versionId = ver_id version,
      r_content = ver_content version, r_attachments = [], r_addenda = [],
      r_publishedAt = None, r_successfulProponent = None, r_subscribed = None,
      r_history = None, r_reporting = None\<rparr>"

text \<open>
  Lines 228 to 248: the attachment and addendum ids, the date of the first publication,
  the awarded flag and the subscription flag.
\<close>

definition readOneDetails :: "Database \<Rightarrow> Id \<Rightarrow> Session \<Rightarrow> RawCWUOpportunity \<Rightarrow> RawCWUOpportunity" where
  "readOneDetails db i session result0 =
     (let result1 = result0\<lparr>r_attachments :=
              [att_file row. row \<leftarrow> cwuOpportunityAttachments db,
                 att_opportunityVersion row = r_versionId result0]\<rparr>;
          result2 = result1\<lparr>r_addenda :=
              [add_id row. row \<leftarrow> cwuOpportunityAddenda db, add_opportunity row = i]\<rparr>;
          publishedDate = first (sort
              [hist_createdAt row. row \<leftarrow> cwuOpportunityStatuses db,
                 hist_opportunity row = r_id result2 \<and> hist_status row = Some Published]);
          result3 = result2\<lparr>r_publishedAt := publishedDate\<rparr>;
          result4 = (if r_status result3 = Some Awarded
                     then result3\<lparr>r_successfulProponent := Some True\<rparr> else result3)
      in case session_user session of
           None \<Rightarrow> result4
         | Some u \<Rightarrow>
             result4\<lparr>r_subscribed := Some
                (first [row \<leftarrow> cwuOpportunitySubscribers db.
                          sub_opportunity row = r_id result4 \<and> sub_user row = user_id u] \<noteq> None)\<rparr>)"

text \<open>
  Lines 250 to 277: for an admin, and when the record's \<^verbatim>\<open>createdBy\<close> is strictly equal
  to \<^verbatim>\<open>session.user?.id\<close>, the history (latest first) and, for a public status, the
  reporting metrics. Both sides of the comparison may be undefined.
\<close>

definition readOneHistory ::
  "Deps \<Rightarrow> Database \<Rightarrow> Session \<Rightarrow> RawCWUOpportunity \<Rightarrow> string + RawCWUOpportunity" where
  "readOneHistory deps db session result =
     (if map_option user_type (session_user session) = Some Admin
           \<or> r_createdBy result = map_option user_id (session_user session)
      then
        (let rawStatusArray = sort_key (\<lambda>row. - hist_createdAt row)
               [row \<leftarrow> cwuOpportunityStatuses db. hist_opportunity row = r_id result]
         in case promiseAll
                   (rawCWUOpportunityHistoryRecordToCWUOpportunityHistoryRecord deps db session)
                   rawStatusArray of
              Inl e \<Rightarrow> Inl e
            | Inr history \<Rightarrow>
                (let result1 = result\<lparr>r_history := Some history\<rparr>
                 in if whereIn (r_status result1) (publicOpportunityStatuses deps)
                    then Inr (result1\<lparr>r_reporting := Some
                      \<lparr>numViews =
                         (case first [row \<leftarrow> viewCounters db. counter_name row =
                                        getCWUOpportunityViewsCounterName deps (r_id result1)] of
                            None \<Rightarrow> 0
                          | Some row \<Rightarrow> counter_count row),
                       numWatchers = length [row \<leftarrow> cwuOpportunitySubscribers db.
                                               sub_opportunity row = r_id result1],
                       numProposals = getValidValue
                         (readSubmittedCWUProposalCount deps db (r_id result1)) 0\<rparr>\<rparr>)
                    else Inr result1))
      else Inr result)"

definition readOneCWUOpportunity ::
  "Deps \<Rightarrow> Database \<Rightarrow> Id \<Rightarrow> Session \<Rightarrow> CWUOpportunity option Validation" where
  "readOneCWUOpportunity deps db i session =
     tryDb (case first (readOneQuery deps db i session) of
              None \<Rightarrow> Inr None
            | Some (opp, stat, version) \<Rightarrow>
                (case readOneHistory deps db session
                        (readOneDetails db i session
                           (processForRole (selectOpportunity opp stat version) session)) of
                   Inl e \<Rightarrow> Inl e
                 | Inr result \<Rightarrow>
                     (case rawCWUOpportunityToCWUOpportunity deps db result of
                        Inl e \<Rightarrow> Inl e
                      | Inr opportunity \<Rightarrow> Inr (Some opportunity))))"

text \<open>
  The read is not a transaction. The raw record and the ids of its files and addenda come
  from the queries of lines 150 to 277; the records are resolved by the queries of line
  280, which see the database as it is by then. \<open>readOneCWUOpportunityAt\<close> is the same
  read with the two states of the database apart: \<open>db\<close> for the first group of queries,
  \<open>db2\<close> for the second. \<open>readOneCWUOpportunity\<close> is the read when nothing is written in
  between.
\<close>

definition readOneCWUOpportunityAt ::
  "Deps \<Rightarrow> Database \<Rightarrow> Database \<Rightarrow> Id \<Rightarrow> Session \<Rightarrow> CWUOpportunity option Validation" where
  "readOneCWUOpportunityAt deps db db2 i session =
     tryDb (case first (readOneQuery deps db i session) of
              None \<Rightarrow> Inr None
            | Some (opp, stat, version) \<Rightarrow>
                (case readOneHistory deps db session
                        (readOneDetails db i session
                           (processForRole (selectOpportunity opp stat version) session)) of
                   Inl e \<Rightarrow> Inl e
                 | Inr result \<Rightarrow>
                     (case rawCWUOpportunityToCWUOpportunity deps db2 result of
                        Inl e \<Rightarrow> Inl e
                      | Inr opportunity \<Rightarrow> Inr (Some opportunity))))"

text \<open>
  The slim opportunity is the full one, reduced. The body throws when the full read is
  invalid or finds nothing.
\<close>

definition readOneCWUOpportunitySlim ::
  "Deps \<Rightarrow> Database \<Rightarrow> Id \<Rightarrow> Session \<Rightarrow> CWUOpportunitySlim option Validation" where
  "readOneCWUOpportunitySlim deps db oppId session =
     tryDb (case readOneCWUOpportunity deps db oppId session of
              Invalid \<Rightarrow> Inl ''unable to read opportunity''
            | Valid None \<Rightarrow> Inl ''unable to read opportunity''
            | Valid (Some fullOpportunity) \<Rightarrow>
                Inr (Some \<lparr>r_id = r_id fullOpportunity,
                           r_createdAt = r_createdAt fullOpportunity,
                           r_createdBy = r_createdBy fullOpportunity,
                           r_updatedAt = r_updatedAt fullOpportunity,
                           r_updatedBy = r_updatedBy fullOpportunity,
                           r_status = r_status fullOpportunity,
                           r_title = title (r_content fullOpportunity),
                           r_proposalDeadline = proposalDeadline (r_content fullOpportunity)\<rparr>))"

subsection \<open>Listing the opportunities\<close>

text \<open>An admin's listing has no \<^verbatim>\<open>where\<close> clause.\<close>

definition readManyFilter ::
  "Deps \<Rightarrow> Session \<Rightarrow> RootOpportunityRecord \<Rightarrow> RawCWUOpportunityHistoryRecord \<Rightarrow> bool" where
  "readManyFilter deps session opp stat =
     (case session_user session of
        None \<Rightarrow> whereIn (hist_status stat) (publicOpportunityStatuses deps)
      | Some u \<Rightarrow>
          if user_type u = Vendor
          then whereIn (hist_status stat) (publicOpportunityStatuses deps)
          else if user_type u = Government
          then whereIn (hist_status stat) (publicOpportunityStatuses deps)
                 \<or> (whereIn (hist_status stat) (privateOpportunitiesStatuses deps)
                      \<and> opp_createdBy opp = user_id u)
          else True)"

definition readManyQuery ::
  "Deps \<Rightarrow> Database \<Rightarrow> Session
     \<Rightarrow> (RootOpportunityRecord \<times> RawCWUOpportunityHistoryRecord \<times> OpportunityVersionRecord) list" where
  "readManyQuery deps db session =
     [(opp, stat, version).
        opp \<leftarrow> cwuOpportunities db,
        stat \<leftarrow> cwuOpportunityStatuses db,
        hist_opportunity stat = opp_id opp
          \<and> Some (hist_createdAt stat) = latestHistoryAt db (opp_id opp),
        version \<leftarrow> cwuOpportunityVersions db,
        ver_opportunity version = opp_id opp
          \<and> Some (ver_createdAt version) = latestVersionAt db (opp_id opp),
        readManyFilter deps session opp stat]"

definition selectOpportunitySlim ::
  "RootOpportunityRecord \<Rightarrow> RawCWUOpportunityHistoryRecord \<Rightarrow> OpportunityVersionRecord
     \<Rightarrow> RawCWUOpportunitySlim" where
  "selectOpportunitySlim opp stat version =
     \<lparr>r_id = opp_id opp, r_createdAt = opp_createdAt opp, r_createdBy = Some (opp_createdBy opp),
      r_updatedAt = ver_createdAt version, r_updatedBy = Some (ver_createdBy version),
      r_status = hist_status stat, r_title = title (ver_content version),
      r_proposalDeadline = proposalDeadline (ver_content version)\<rparr>"

definition readManyCWUOpportunities ::
  "Deps \<Rightarrow> Database \<Rightarrow> Session \<Rightarrow> CWUOpportunitySlim list Validation" where
  "readManyCWUOpportunities deps db session =
     tryDb (let results = map (\<lambda>(opp, stat, version).
                                 processForRole (selectOpportunitySlim opp stat version) session)
                              (readManyQuery deps db session)
            in Inr (map (rawCWUOpportunitySlimToCWUOpportunitySlim deps db) results))"

subsection \<open>Statements and transactions\<close>

text \<open>
  What a write operation takes from outside: the clock (\<^verbatim>\<open>new Date()\<close>), the identifier
  that \<^verbatim>\<open>generateUuid()\<close> returns while the statement of a given index is built, and
  which statements the database rejects. Statements are counted from 0 in the order the
  operation issues them; the commit of a transaction is a statement too. A rejected
  statement throws.
\<close>

record Env =
  now :: Date
  generateUuid :: "nat \<Rightarrow> Id"
  fails :: "nat \<Rightarrow> bool"

text \<open>
  An open transaction: the rows that are committed (what a rollback leaves), the rows that
  the transaction sees (the committed rows and its own), and the index of the next
  statement.
\<close>

record Trx =
  committed :: Database
  view :: Database
  stmt :: nat

text \<open>
  One \<^verbatim>\<open>insert\<close>. With \<^verbatim>\<open>.transacting(trx)\<close> the row is the transaction's own until
  the commit; without it the statement runs on a connection of its own and the row is
  committed at once.
\<close>

definition insertRow :: "Env \<Rightarrow> bool \<Rightarrow> (Database \<Rightarrow> Database) \<Rightarrow> Trx \<Rightarrow> Trx \<times> (string + unit)" where
  "insertRow env transacting ins t =
     (if fails env (stmt t) then (t\<lparr>stmt := Suc (stmt t)\<rparr>, Inl ''insert failed'')
      else if transacting then (t\<lparr>view := ins (view t), stmt := Suc (stmt t)\<rparr>, Inr ())
      else (t\<lparr>committed := ins (committed t), view := ins (view t), stmt := Suc (stmt t)\<rparr>,
            Inr ()))"

text \<open>
  \<^verbatim>\<open>connection.transaction(body)\<close>: when the body throws the transaction is rolled back
  and the error is thrown on; otherwise the transaction commits, unless the commit fails.
\<close>

definition transaction ::
  "Env \<Rightarrow> (Trx \<Rightarrow> Trx \<times> (string + 'a)) \<Rightarrow> Database \<Rightarrow> Database \<times> (string + 'a)" where
  "transaction env body db =
     (case body \<lparr>committed = db, view = db, stmt = 0\<rparr> of
        (t, Inl e) \<Rightarrow> (committed t, Inl e)
      | (t, Inr v) \<Rightarrow>
          if fails env (stmt t) then (committed t, Inl ''commit failed'')
          else (view t, Inr v))"

definition intoVersions :: "OpportunityVersionRecord \<Rightarrow> Database \<Rightarrow> Database" where
  "intoVersions row db = db\<lparr>cwuOpportunityVersions := cwuOpportunityVersions db @ [row]\<rparr>"

definition intoStatuses :: "RawCWUOpportunityHistoryRecord \<Rightarrow> Database \<Rightarrow> Database" where
  "intoStatuses row db = db\<lparr>cwuOpportunityStatuses := cwuOpportunityStatuses db @ [row]\<rparr>"

definition intoAttachments :: "AttachmentRow \<Rightarrow> Database \<Rightarrow> Database" where
  "intoAttachments row db = db\<lparr>cwuOpportunityAttachments := cwuOpportunityAttachments db @ [row]\<rparr>"

definition intoAddenda :: "RawCWUOpportunityAddendum \<Rightarrow> Database \<Rightarrow> Database" where
  "intoAddenda row db = db\<lparr>cwuOpportunityAddenda := cwuOpportunityAddenda db @ [row]\<rparr>"

definition intoProposalStatuses :: "ProposalStatusRow \<Rightarrow> Database \<Rightarrow> Database" where
  "intoProposalStatuses row db = db\<lparr>cwuProposalStatuses := cwuProposalStatuses db @ [row]\<rparr>"

subsection \<open>Writing\<close>

record AuthenticatedSession =
  auth_user :: User

definition sessionOf :: "AuthenticatedSession \<Rightarrow> Session" where
  "sessionOf session = \<lparr>session_user = Some (auth_user session)\<rparr>"

text \<open>
  The parameters of an update, \<^verbatim>\<open>Partial<CWUOpportunity>\<close>, with the fields that the
  version table has columns for.
\<close>

record UpdateCWUOpportunityParams =
  upd_id :: Id
  upd_content :: VersionContent
  upd_attachments :: "FileRecord list option"

fun createCWUOpportunityAttachments ::
  "Env \<Rightarrow> Id \<Rightarrow> FileRecord list \<Rightarrow> Trx \<Rightarrow> Trx \<times> (string + unit)" where
  "createCWUOpportunityAttachments env oppVersionId [] t = (t, Inr ())"
| "createCWUOpportunityAttachments env oppVersionId (attachment # attachments) t =
     (case insertRow env True
             (intoAttachments \<lparr>att_opportunityVersion = oppVersionId,
                               att_file = file_id attachment\<rparr>) t of
        (t1, Inl e) \<Rightarrow> (t1, Inl e)
      | (t1, Inr u) \<Rightarrow> createCWUOpportunityAttachments env oppVersionId attachments t1)"

text \<open>The read-back that ends every write: it throws unless it finds the opportunity.\<close>

definition readBack ::
  "Deps \<Rightarrow> Database \<Rightarrow> Id \<Rightarrow> AuthenticatedSession \<Rightarrow> string \<Rightarrow> string + CWUOpportunity" where
  "readBack deps db i session msg =
     (case readOneCWUOpportunity deps db i (sessionOf session) of
        Invalid \<Rightarrow> Inl msg
      | Valid None \<Rightarrow> Inl msg
      | Valid (Some v) \<Rightarrow> Inr v)"

text \<open>
  The body of the transaction of \<^verbatim>\<open>updateCWUOpportunityVersion\<close>. The version and the
  attachments are inserted with \<^verbatim>\<open>.transacting(trx)\<close>; the insert of the
  \<^verbatim>\<open>Edited\<close> record is not.
\<close>

definition updateVersionBody ::
  "Env \<Rightarrow> UpdateCWUOpportunityParams \<Rightarrow> AuthenticatedSession \<Rightarrow> Trx
     \<Rightarrow> Trx \<times> (string + OpportunityVersionRecord)" where
  "updateVersionBody env opportunity session t0 =
     (let oppVersion = \<lparr>ver_id = generateUuid env (stmt t0),
                         ver_opportunity = upd_id opportunity,
                         ver_createdAt = now env,
                         ver_createdBy = user_id (auth_user session),
                         ver_content = upd_content opportunity\<rparr>
      in case insertRow env True (intoVersions oppVersion) t0 of
           (t1, Inl e) \<Rightarrow> (t1, Inl e)
         | (t1, Inr u) \<Rightarrow>
             (case createCWUOpportunityAttachments env (ver_id oppVersion)
                     (case upd_attachments opportunity of None \<Rightarrow> [] | Some fs \<Rightarrow> fs) t1 of
                (t2, Inl e) \<Rightarrow> (t2, Inl e)
              | (t2, Inr u) \<Rightarrow>
                  (case insertRow env False
                          (intoStatuses \<lparr>hist_id = generateUuid env (stmt t2),
                                          hist_opportunity = upd_id opportunity,
                                          hist_createdAt = now env,
                                          hist_createdBy = Some (user_id (auth_user session)),
                                          hist_status = None,
                                          hist_event = Some Edited,
                                          hist_note = []\<rparr>) t2 of
                     (t3, Inl e) \<Rightarrow> (t3, Inl e)
                   | (t3, Inr u) \<Rightarrow> (t3, Inr oppVersion))))"

definition updateCWUOpportunityVersion ::
  "Deps \<Rightarrow> Env \<Rightarrow> Database \<Rightarrow> UpdateCWUOpportunityParams \<Rightarrow> AuthenticatedSession
     \<Rightarrow> Database \<times> CWUOpportunity Validation" where
  "updateCWUOpportunityVersion deps env db opportunity session =
     (case transaction env (updateVersionBody env opportunity session) db of
        (db1, Inl e) \<Rightarrow> (db1, tryDb (Inl e))
      | (db1, Inr oppVersion) \<Rightarrow>
          (db1, tryDb (readBack deps db1 (ver_opportunity oppVersion) session
                         ''unable to update opportunity'')))"

text \<open>One insert, in no transaction.\<close>

definition updateCWUOpportunityStatus ::
  "Deps \<Rightarrow> Env \<Rightarrow> Database \<Rightarrow> Id \<Rightarrow> CWUOpportunityStatus \<Rightarrow> string \<Rightarrow> AuthenticatedSession
     \<Rightarrow> Database \<times> CWUOpportunity Validation" where
  "updateCWUOpportunityStatus deps env db i status note session =
     (if fails env 0 then (db, tryDb (Inl ''insert failed''))
      else
        (let db1 = intoStatuses \<lparr>hist_id = generateUuid env 0,
                                  hist_opportunity = i,
                                  hist_createdAt = now env,
                                  hist_createdBy = Some (user_id (auth_user session)),
                                  hist_status = Some status,
                                  hist_event = None,
                                  hist_note = note\<rparr> db
         in (db1, tryDb (readBack deps db1 i session ''unable to update opportunity''))))"

definition addAddendumBody ::
  "Env \<Rightarrow> Id \<Rightarrow> string \<Rightarrow> AuthenticatedSession \<Rightarrow> Trx \<Rightarrow> Trx \<times> (string + unit)" where
  "addAddendumBody env i addendumText session t0 =
     (case insertRow env True
             (intoAddenda \<lparr>add_id = generateUuid env (stmt t0),
                           add_opportunity = i,
                           add_description = addendumText,
                           add_createdBy = Some (user_id (auth_user session)),
                           add_createdAt = now env\<rparr>) t0 of
        (t1, Inl e) \<Rightarrow> (t1, Inl e)
      | (t1, Inr u) \<Rightarrow>
          insertRow env True
            (intoStatuses \<lparr>hist_id = generateUuid env (stmt t1),
                            hist_opportunity = i,
                            hist_createdAt = now env,
                            hist_createdBy = Some (user_id (auth_user session)),
                            hist_status = None,
                            hist_event = Some AddendumAdded,
                            hist_note = []\<rparr>) t1)"

definition addCWUOpportunityAddendum ::
  "Deps \<Rightarrow> Env \<Rightarrow> Database \<Rightarrow> Id \<Rightarrow> string \<Rightarrow> AuthenticatedSession
     \<Rightarrow> Database \<times> CWUOpportunity Validation" where
  "addCWUOpportunityAddendum deps env db i addendumText session =
     (case transaction env (addAddendumBody env i addendumText session) db of
        (db1, Inl e) \<Rightarrow> (db1, tryDb (Inl e))
      | (db1, Inr u) \<Rightarrow>
          (db1, tryDb (readBack deps db1 i session ''unable to add addendum'')))"

text \<open>
  \<^verbatim>\<open>deleteCWUOpportunity\<close> deletes the root rows with the given id; as its comment says,
  the cascade relationships in the database clean up the versions, attachments and
  addenda. The resource it returns is built from the first deleted root row alone, so it
  has that row's fields and no others.
\<close>

record DeletedCWUOpportunity =
  d_id :: Id
  d_createdAt :: Date
  d_createdBy :: "UserSlim option"

definition cascadeDelete :: "Id \<Rightarrow> Database \<Rightarrow> Database" where
  "cascadeDelete i db =
     db\<lparr>cwuOpportunities := [row \<leftarrow> cwuOpportunities db. opp_id row \<noteq> i],
        cwuOpportunityVersions := [row \<leftarrow> cwuOpportunityVersions db. ver_opportunity row \<noteq> i],
        cwuOpportunityAttachments :=
          [row \<leftarrow> cwuOpportunityAttachments db.
             att_opportunityVersion row \<notin>
               set [ver_id v. v \<leftarrow> cwuOpportunityVersions db, ver_opportunity v = i]],
        cwuOpportunityAddenda := [row \<leftarrow> cwuOpportunityAddenda db. add_opportunity row \<noteq> i]\<rparr>"

definition deleteCWUOpportunity ::
  "Deps \<Rightarrow> Env \<Rightarrow> Database \<Rightarrow> Id \<Rightarrow> Database \<times> DeletedCWUOpportunity Validation" where
  "deleteCWUOpportunity deps env db i =
     (if fails env 0 then (db, tryDb (Inl ''delete failed''))
      else case first [row \<leftarrow> cwuOpportunities db. opp_id row = i] of
             None \<Rightarrow> (db, tryDb (Inl ''unable to delete opportunity''))
           | Some result \<Rightarrow>
               (let db1 = cascadeDelete i db
                in (db1, tryDb (Inr \<lparr>d_id = opp_id result, d_createdAt = opp_createdAt result,
                                      d_createdBy = resolveUser deps db1
                                                      (Some (opp_createdBy result))\<rparr>))))"

subsection \<open>Closing the lapsed opportunities\<close>

definition lapsedOpportunitiesQuery :: "Date \<Rightarrow> Database \<Rightarrow> Id list" where
  "lapsedOpportunitiesQuery t db =
     [opp_id opportunities.
        opportunities \<leftarrow> cwuOpportunities db,
        statuses \<leftarrow> cwuOpportunityStatuses db,
        hist_opportunity statuses = opp_id opportunities
          \<and> Some (hist_createdAt statuses) = latestStatusAt db (opp_id opportunities),
        versions \<leftarrow> cwuOpportunityVersions db,
        ver_opportunity versions = opp_id opportunities
          \<and> Some (ver_createdAt versions) = latestVersionAt db (opp_id opportunities),
        hist_status statuses = Some Published
          \<and> proposalDeadline (ver_content versions) \<le> t]"

definition latestProposalStatusAt :: "Database \<Rightarrow> Id \<Rightarrow> Date option" where
  "latestProposalStatusAt db pid =
     sqlMax [pst_createdAt statuses2. statuses2 \<leftarrow> cwuProposalStatuses db,
               pst_proposal statuses2 = pid \<and> pst_status statuses2 \<noteq> None]"

definition submittedProposalsQuery :: "Database \<Rightarrow> Id \<Rightarrow> Id list" where
  "submittedProposalsQuery db lapsedOpportunityId =
     [prop_id proposals.
        proposals \<leftarrow> cwuProposals db,
        statuses \<leftarrow> cwuProposalStatuses db,
        pst_proposal statuses = prop_id proposals
          \<and> pst_status statuses \<noteq> None
          \<and> Some (pst_createdAt statuses) = latestProposalStatusAt db (prop_id proposals),
        prop_opportunity proposals = lapsedOpportunityId
          \<and> pst_status statuses = Some Submitted]"

fun closeProposals :: "Env \<Rightarrow> Id list \<Rightarrow> Trx \<Rightarrow> Trx \<times> (string + unit)" where
  "closeProposals env [] t = (t, Inr ())"
| "closeProposals env (proposalId # proposalIds) t =
     (case insertRow env True
             (intoProposalStatuses \<lparr>pst_id = generateUuid env (stmt t),
                                    pst_proposal = proposalId,
                                    pst_createdAt = now env,
                                    pst_status = Some UnderReview,
                                    pst_note = []\<rparr>) t of
        (t1, Inl e) \<Rightarrow> (t1, Inl e)
      | (t1, Inr u) \<Rightarrow> closeProposals env proposalIds t1)"

fun closeOpportunities :: "Env \<Rightarrow> Id list \<Rightarrow> Trx \<Rightarrow> Trx \<times> (string + unit)" where
  "closeOpportunities env [] t = (t, Inr ())"
| "closeOpportunities env (lapsedOpportunityId # lapsedOpportunitiesIds) t =
     (case insertRow env True
             (intoStatuses \<lparr>hist_id = generateUuid env (stmt t),
                             hist_opportunity = lapsedOpportunityId,
                             hist_createdAt = now env,
                             hist_createdBy = None,
                             hist_status = Some Evaluation,
                             hist_event = None,
                             hist_note = ''This opportunity has closed.''\<rparr>) t of
        (t1, Inl e) \<Rightarrow> (t1, Inl e)
      | (t1, Inr u) \<Rightarrow>
          (case closeProposals env (submittedProposalsQuery (view t1) lapsedOpportunityId) t1 of
             (t2, Inl e) \<Rightarrow> (t2, Inl e)
           | (t2, Inr u) \<Rightarrow> closeOpportunities env lapsedOpportunitiesIds t2))"

text \<open>The whole sweep, the query and both loops, is the body of a single transaction.\<close>

definition closeBody :: "Env \<Rightarrow> Trx \<Rightarrow> Trx \<times> (string + nat)" where
  "closeBody env t0 =
     (let lapsedOpportunitiesIds = lapsedOpportunitiesQuery (now env) (view t0)
      in case closeOpportunities env lapsedOpportunitiesIds t0 of
           (t, Inl e) \<Rightarrow> (t, Inl e)
         | (t, Inr u) \<Rightarrow> (t, Inr (length lapsedOpportunitiesIds)))"

definition closeCWUOpportunities :: "Env \<Rightarrow> Database \<Rightarrow> Database \<times> nat Validation" where
  "closeCWUOpportunities env db =
     (case transaction env (closeBody env) db of (db1, r) \<Rightarrow> (db1, tryDb r))"

section \<open>What the specification says, in terms of the tables\<close>

text \<open>
  A latest status row of an opportunity: one of its rows that has a status and that no
  other of its rows with a status was created after. A latest version likewise.
\<close>

definition isLatestStatusRow :: "Database \<Rightarrow> Id \<Rightarrow> RawCWUOpportunityHistoryRecord \<Rightarrow> bool" where
  "isLatestStatusRow db oid stat \<longleftrightarrow>
     stat \<in> set (cwuOpportunityStatuses db) \<and> hist_opportunity stat = oid
   \<and> hist_status stat \<noteq> None
   \<and> (\<forall>s2\<in>set (cwuOpportunityStatuses db).
         hist_opportunity s2 = oid \<and> hist_status s2 \<noteq> None
           \<longrightarrow> hist_createdAt s2 \<le> hist_createdAt stat)"

definition isLatestVersion :: "Database \<Rightarrow> Id \<Rightarrow> OpportunityVersionRecord \<Rightarrow> bool" where
  "isLatestVersion db oid version \<longleftrightarrow>
     version \<in> set (cwuOpportunityVersions db) \<and> ver_opportunity version = oid
   \<and> (\<forall>v2\<in>set (cwuOpportunityVersions db).
         ver_opportunity v2 = oid \<longrightarrow> ver_createdAt v2 \<le> ver_createdAt version)"

definition hasCurrentStatus :: "Database \<Rightarrow> Id \<Rightarrow> CWUOpportunityStatus \<Rightarrow> bool" where
  "hasCurrentStatus db oid s \<longleftrightarrow>
     (\<exists>stat\<in>set (cwuOpportunityStatuses db).
        isLatestStatusRow db oid stat \<and> hist_status stat = Some s)"

text \<open>
  Visibility by role: an anonymous session and a vendor see the opportunities whose
  current status is public; a government user sees those and the ones with a private
  current status that the user created; an admin sees all.
\<close>

definition visibleTo :: "Deps \<Rightarrow> Database \<Rightarrow> Session \<Rightarrow> Id \<Rightarrow> bool" where
  "visibleTo deps db session oid =
     (case session_user session of
        None \<Rightarrow> (\<exists>s\<in>set (publicOpportunityStatuses deps). hasCurrentStatus db oid s)
      | Some u \<Rightarrow>
          (case user_type u of
             Vendor \<Rightarrow> (\<exists>s\<in>set (publicOpportunityStatuses deps). hasCurrentStatus db oid s)
           | Government \<Rightarrow>
               (\<exists>s\<in>set (publicOpportunityStatuses deps). hasCurrentStatus db oid s)
               \<or> ((\<exists>s\<in>set (privateOpportunitiesStatuses deps). hasCurrentStatus db oid s)
                    \<and> (\<exists>opp\<in>set (cwuOpportunities db).
                          opp_id opp = oid \<and> opp_createdBy opp = user_id u))
           | Admin \<Rightarrow> True))"

text \<open>
  A session that is unauthenticated, or whose user is neither an admin nor the creator
  nor the last editor.
\<close>

definition notAdminNorAuthor :: "Session \<Rightarrow> Id \<Rightarrow> Id \<Rightarrow> bool" where
  "notAdminNorAuthor session creator editor =
     (case session_user session of
        None \<Rightarrow> True
      | Some u \<Rightarrow> user_type u \<noteq> Admin \<and> user_id u \<noteq> creator \<and> user_id u \<noteq> editor)"

section \<open>Example data\<close>

definition exampleContent :: VersionContent where
  "exampleContent =
     \<lparr>title = ''Fix the portal'', teaser = ''A small fix'', remoteOk = True, remoteDesc = [],
      location = ''Victoria'', reward = 5000, skills = [''ts''], description = ''d'',
      proposalDeadline = 100, assignmentDate = 110, startDate = 120, completionDate = None,
      submissionInfo = [], acceptanceCriteria = ''a'', evaluationCriteria = ''e''\<rparr>"

definition exampleUser :: "Id \<Rightarrow> UserType \<Rightarrow> User" where
  "exampleUser i t =
     \<lparr>user_id = i, user_type = t, user_status = Active, user_name = i, user_email = None,
      user_avatarImageUrl = None, user_notificationsOn = False, user_acceptedTerms = True,
      user_idpUsername = i\<rparr>"

definition anonymous :: Session where
  "anonymous = \<lparr>session_user = None\<rparr>"

definition vendorSession :: Session where
  "vendorSession = \<lparr>session_user = Some (exampleUser ''v1'' Vendor)\<rparr>"

definition adminSession :: Session where
  "adminSession = \<lparr>session_user = Some (exampleUser ''a1'' Admin)\<rparr>"

definition govSession :: AuthenticatedSession where
  "govSession = \<lparr>auth_user = exampleUser ''g1'' Government\<rparr>"

text \<open>Every user id resolves; the only file is \<open>f1\<close>.\<close>

definition exampleDeps :: Deps where
  "exampleDeps =
     \<lparr>publicOpportunityStatuses = [Published, Evaluation, Awarded],
      privateOpportunitiesStatuses = [Draft],
      readOneUserSlim = (\<lambda>db i. Valid (Some \<lparr>us_id = i, us_name = i\<rparr>)),
      readOneFileById = (\<lambda>db i. if i = ''f1''
                                 then Valid (Some \<lparr>file_id = i, file_name = ''a.pdf''\<rparr>)
                                 else Valid None),
      readSubmittedCWUProposalCount = (\<lambda>db i. Valid 0),
      getCWUOpportunityViewsCounterName = (\<lambda>i. i)\<rparr>"

definition publishedRow :: "Id \<Rightarrow> Id \<Rightarrow> Date \<Rightarrow> RawCWUOpportunityHistoryRecord" where
  "publishedRow i oid t =
     \<lparr>hist_id = i, hist_opportunity = oid, hist_createdAt = t, hist_createdBy = Some ''g1'',
      hist_status = Some Published, hist_event = None, hist_note = []\<rparr>"

definition editedRow :: "Id \<Rightarrow> Id \<Rightarrow> Date \<Rightarrow> RawCWUOpportunityHistoryRecord" where
  "editedRow i oid t =
     \<lparr>hist_id = i, hist_opportunity = oid, hist_createdAt = t, hist_createdBy = Some ''g1'',
      hist_status = None, hist_event = Some Edited, hist_note = []\<rparr>"

text \<open>One opportunity, created by \<open>g1\<close> at 10 and published at 20, with one attachment.\<close>

definition publishedDb :: Database where
  "publishedDb =
     \<lparr>cwuOpportunities = [\<lparr>opp_id = ''o1'', opp_createdAt = 10, opp_createdBy = ''g1''\<rparr>],
      cwuOpportunityVersions =
        [\<lparr>ver_id = ''v1'', ver_opportunity = ''o1'', ver_createdAt = 10, ver_createdBy = ''g1'',
          ver_content = exampleContent\<rparr>],
      cwuOpportunityStatuses = [publishedRow ''s1'' ''o1'' 20],
      cwuOpportunityAttachments = [\<lparr>att_opportunityVersion = ''v1'', att_file = ''f1''\<rparr>],
      cwuOpportunityAddenda = [],
      cwuOpportunitySubscribers = [],
      viewCounters = [],
      cwuProposals = [],
      cwuProposalStatuses = []\<rparr>"

text \<open>The same opportunity after an edit event at 30.\<close>

definition editedDb :: Database where
  "editedDb = intoStatuses (editedRow ''s2'' ''o1'' 30) publishedDb"

text \<open>The same opportunity with a second attachment, whose file does not exist.\<close>

definition danglingDb :: Database where
  "danglingDb =
     intoAttachments \<lparr>att_opportunityVersion = ''v1'', att_file = ''f2''\<rparr> publishedDb"

text \<open>The same opportunity with an addendum.\<close>

definition addendumDb :: Database where
  "addendumDb =
     intoAddenda \<lparr>add_id = ''a1'', add_opportunity = ''o1'', add_description = ''More time'',
                  add_createdBy = Some ''g1'', add_createdAt = 25\<rparr> publishedDb"

text \<open>A raw record of the example opportunity that names an addendum.\<close>

definition rawWithAddendum :: RawCWUOpportunity where
  "rawWithAddendum =
     (selectOpportunity \<lparr>opp_id = ''o1'', opp_createdAt = 10, opp_createdBy = ''g1''\<rparr>
        (publishedRow ''s1'' ''o1'' 20)
        \<lparr>ver_id = ''v1'', ver_opportunity = ''o1'', ver_createdAt = 10, ver_createdBy = ''g1'',
         ver_content = exampleContent\<rparr>)\<lparr>r_addenda := [''a1'']\<rparr>"

text \<open>What the reads of that opportunity return.\<close>

definition userG1 :: UserSlim where
  "userG1 = \<lparr>us_id = ''g1'', us_name = ''g1''\<rparr>"

definition publishedView :: "UserSlim option \<Rightarrow> bool option \<Rightarrow> bool \<Rightarrow> CWUOpportunity" where
  "publishedView author subscribed owner =
     \<lparr>r_id = ''o1'', r_createdAt = 10, r_createdBy = author, r_updatedAt = 10,
      r_updatedBy = author, r_status = Some Published, r_versionId = ''v1'',
      r_content = exampleContent,
      r_attachments = [\<lparr>file_id = ''f1'', file_name = ''a.pdf''\<rparr>],
      r_addenda = [], r_publishedAt = Some 20, r_successfulProponent = None,
      r_subscribed = subscribed,
      r_history = (if owner
                   then Some [\<lparr>h_id = ''s1'', h_opportunity = ''o1'', h_createdAt = 20,
                               h_note = [], h_createdBy = Some userG1,
                               h_type = StatusType Published\<rparr>]
                   else None),
      r_reporting = (if owner then Some \<lparr>numViews = 0, numWatchers = 0, numProposals = 0\<rparr>
                     else None)\<rparr>"

definition publishedSlim :: "UserSlim option \<Rightarrow> CWUOpportunityStatus option \<Rightarrow> CWUOpportunitySlim" where
  "publishedSlim author status =
     \<lparr>r_id = ''o1'', r_createdAt = 10, r_createdBy = author, r_updatedAt = 10,
      r_updatedBy = author, r_status = status, r_title = ''Fix the portal'',
      r_proposalDeadline = 100\<rparr>"

text \<open>The files and the addenda that an opportunity links to, and a link that is broken.\<close>

definition linkedFiles :: "Database \<Rightarrow> Id \<Rightarrow> Id list" where
  "linkedFiles db versionId =
     [att_file row. row \<leftarrow> cwuOpportunityAttachments db, att_opportunityVersion row = versionId]"

definition linkedAddenda :: "Database \<Rightarrow> Id \<Rightarrow> Id list" where
  "linkedAddenda db oid =
     [add_id row. row \<leftarrow> cwuOpportunityAddenda db, add_opportunity row = oid]"

definition fileMissing :: "Deps \<Rightarrow> Database \<Rightarrow> Id \<Rightarrow> bool" where
  "fileMissing deps db f \<longleftrightarrow> getValidValue (readOneFileById deps db f) None = None"

definition addendumMissing :: "Deps \<Rightarrow> Database \<Rightarrow> Id \<Rightarrow> bool" where
  "addendumMissing deps db a \<longleftrightarrow>
     getValidValue (map_Validation Some (readOneCWUOpportunityAddendum deps db a)) None = None"

text \<open>The same opportunity while it is still a draft.\<close>

definition draftDb :: Database where
  "draftDb =
     publishedDb\<lparr>cwuOpportunityStatuses :=
       [\<lparr>hist_id = ''s0'', hist_opportunity = ''o1'', hist_createdAt = 10,
         hist_createdBy = Some ''g1'', hist_status = Some Draft, hist_event = None,
         hist_note = []\<rparr>]\<rparr>"

text \<open>
  An environment in which no statement fails, and one in which exactly the statement of
  a given index fails. The clock reads 200.
\<close>

definition exampleEnv :: Env where
  "exampleEnv = \<lparr>now = 200, generateUuid = (\<lambda>k. replicate (Suc k) CHR ''n''), fails = (\<lambda>k. False)\<rparr>"

definition failingAt :: "nat \<Rightarrow> Env" where
  "failingAt n = exampleEnv\<lparr>fails := (\<lambda>k. k = n)\<rparr>"

text \<open>An update of the example opportunity that changes its title and has no attachments.\<close>

definition exampleUpdate :: UpdateCWUOpportunityParams where
  "exampleUpdate =
     \<lparr>upd_id = ''o1'', upd_content = exampleContent\<lparr>title := ''Fix the portal now''\<rparr>,
      upd_attachments = None\<rparr>"

text \<open>
  One database extends another when its version, history, attachment and addendum tables
  are the other's with rows appended: no row is changed and none is deleted.
\<close>

definition extends :: "Database \<Rightarrow> Database \<Rightarrow> bool" where
  "extends db db' \<longleftrightarrow>
     prefix (cwuOpportunityVersions db) (cwuOpportunityVersions db')
   \<and> prefix (cwuOpportunityStatuses db) (cwuOpportunityStatuses db')
   \<and> prefix (cwuOpportunityAttachments db) (cwuOpportunityAttachments db')
   \<and> prefix (cwuOpportunityAddenda db) (cwuOpportunityAddenda db')"

text \<open>Two databases with the same root records.\<close>

definition sameRoots :: "Database \<Rightarrow> Database \<Rightarrow> bool" where
  "sameRoots db db' \<longleftrightarrow> cwuOpportunities db' = cwuOpportunities db"

text \<open>
  A lapsed opportunity at a given time: it has a root row, a latest status row that is
  \<^verbatim>\<open>Published\<close>, and a latest version whose proposal deadline is at or before that time.
\<close>

definition isLapsed :: "Date \<Rightarrow> Database \<Rightarrow> Id \<Rightarrow> bool" where
  "isLapsed t db oid \<longleftrightarrow>
     (\<exists>opp\<in>set (cwuOpportunities db). opp_id opp = oid)
   \<and> (\<exists>stat\<in>set (cwuOpportunityStatuses db).
          isLatestStatusRow db oid stat \<and> hist_status stat = Some Published)
   \<and> (\<exists>version\<in>set (cwuOpportunityVersions db).
          isLatestVersion db oid version \<and> proposalDeadline (ver_content version) \<le> t)"




text \<open>
  Two published opportunities whose deadline, 100, has passed at 200. The first has a
  submitted proposal \<open>p1\<close> and a proposal \<open>p2\<close> that was submitted and then withdrawn; the
  second has a submitted proposal \<open>p3\<close>.
\<close>

definition proposalStatusRow :: "Id \<Rightarrow> Id \<Rightarrow> Date \<Rightarrow> CWUProposalStatus \<Rightarrow> ProposalStatusRow" where
  "proposalStatusRow i pid t st =
     \<lparr>pst_id = i, pst_proposal = pid, pst_createdAt = t, pst_status = Some st, pst_note = []\<rparr>"

definition sweepDb :: Database where
  "sweepDb =
     publishedDb
       \<lparr>cwuOpportunities :=
          [\<lparr>opp_id = ''o1'', opp_createdAt = 10, opp_createdBy = ''g1''\<rparr>,
           \<lparr>opp_id = ''o2'', opp_createdAt = 12, opp_createdBy = ''g1''\<rparr>],
        cwuOpportunityVersions :=
          [\<lparr>ver_id = ''v1'', ver_opportunity = ''o1'', ver_createdAt = 10, ver_createdBy = ''g1'',
            ver_content = exampleContent\<rparr>,
           \<lparr>ver_id = ''v2'', ver_opportunity = ''o2'', ver_createdAt = 12, ver_createdBy = ''g1'',
            ver_content = exampleContent\<rparr>],
        cwuOpportunityStatuses := [publishedRow ''s1'' ''o1'' 20, publishedRow ''s2'' ''o2'' 22],
        cwuProposals :=
          [\<lparr>prop_id = ''p1'', prop_opportunity = ''o1''\<rparr>,
           \<lparr>prop_id = ''p2'', prop_opportunity = ''o1''\<rparr>,
           \<lparr>prop_id = ''p3'', prop_opportunity = ''o2''\<rparr>],
        cwuProposalStatuses :=
          [proposalStatusRow ''q1'' ''p1'' 50 Submitted,
           proposalStatusRow ''q2'' ''p2'' 50 Submitted,
           proposalStatusRow ''q3'' ''p3'' 55 Submitted,
           proposalStatusRow ''q4'' ''p2'' 60 (OtherProposalStatus ''WITHDRAWN'')]\<rparr>"





section \<open>Properties\<close>

subsection \<open>Maxima, first rows and the rows of the queries\<close>

lemma sqlMax_empty: "sqlMax ds = None \<longleftrightarrow> ds = []"
  by (cases ds) simp_all

lemma sqlMax_Max: "ds \<noteq> [] \<Longrightarrow> sqlMax ds = Some (Max (set ds))"
  by (cases ds) (simp_all add: Max.set_eq_fold [symmetric])

lemma sqlMax_SomeD: "sqlMax ds = Some m \<Longrightarrow> m \<in> set ds \<and> (\<forall>d\<in>set ds. d \<le> m)"
proof -
  assume a: "sqlMax ds = Some m"
  then have ne: "ds \<noteq> []" by (cases ds) simp_all
  with a have m: "m = Max (set ds)" by (simp add: sqlMax_Max)
  from ne have "Max (set ds) \<in> set ds" by (intro Max_in) simp_all
  moreover have "\<forall>d\<in>set ds. d \<le> Max (set ds)" by simp
  ultimately show ?thesis using m by simp
qed


lemma first_SomeD: "first xs = Some x \<Longrightarrow> x \<in> set xs"
  by (cases xs) auto

lemma first_None: "first xs = None \<longleftrightarrow> xs = []"
  by (cases xs) auto

lemma in_readOneQuery:
  "(opp, stat, version) \<in> set (readOneQuery deps db i session) \<longleftrightarrow>
     opp \<in> set (cwuOpportunities db) \<and> opp_id opp = i
   \<and> stat \<in> set (cwuOpportunityStatuses db) \<and> hist_opportunity stat = i
   \<and> Some (hist_createdAt stat) = latestStatusAt db i
   \<and> version \<in> set (cwuOpportunityVersions db) \<and> ver_opportunity version = i
   \<and> Some (ver_createdAt version) = latestVersionAt db i
   \<and> readOneFilter deps session opp stat"
  by (auto simp: readOneQuery_def)

lemma in_readManyQuery:
  "(opp, stat, version) \<in> set (readManyQuery deps db session) \<longleftrightarrow>
     opp \<in> set (cwuOpportunities db)
   \<and> stat \<in> set (cwuOpportunityStatuses db) \<and> hist_opportunity stat = opp_id opp
   \<and> Some (hist_createdAt stat) = latestHistoryAt db (opp_id opp)
   \<and> version \<in> set (cwuOpportunityVersions db) \<and> ver_opportunity version = opp_id opp
   \<and> Some (ver_createdAt version) = latestVersionAt db (opp_id opp)
   \<and> readManyFilter deps session opp stat"
  by (auto simp: readManyQuery_def)

lemma readOneFilter_status: "readOneFilter deps session opp stat \<Longrightarrow> hist_status stat \<noteq> None"
  by (auto simp: readOneFilter_def whereIn_def split: option.splits if_splits)

lemma latestStatusAt_D:
  "latestStatusAt db i = Some m \<Longrightarrow>
     \<forall>s2\<in>set (cwuOpportunityStatuses db).
        hist_opportunity s2 = i \<and> hist_status s2 \<noteq> None \<longrightarrow> hist_createdAt s2 \<le> m"
  by (auto simp: latestStatusAt_def dest!: sqlMax_SomeD)

lemma latestVersionAt_D:
  "latestVersionAt db i = Some m \<Longrightarrow>
     \<forall>v2\<in>set (cwuOpportunityVersions db). ver_opportunity v2 = i \<longrightarrow> ver_createdAt v2 \<le> m"
  by (auto simp: latestVersionAt_def dest!: sqlMax_SomeD)

lemma latestHistoryAt_D:
  "latestHistoryAt db i = Some m \<Longrightarrow>
     \<forall>s2\<in>set (cwuOpportunityStatuses db). hist_opportunity s2 = i \<longrightarrow> hist_createdAt s2 \<le> m"
  by (auto simp: latestHistoryAt_def dest!: sqlMax_SomeD)


lemmas example_defs = exampleContent_def exampleUser_def anonymous_def vendorSession_def
  adminSession_def govSession_def exampleDeps_def publishedRow_def editedRow_def
  publishedDb_def editedDb_def danglingDb_def draftDb_def intoStatuses_def intoAttachments_def
  userG1_def publishedView_def publishedSlim_def

lemmas read_defs = readOneCWUOpportunity_def readOneQuery_def readOneFilter_def whereIn_def
  latestStatusAt_def latestVersionAt_def latestHistoryAt_def tryDb_def
  selectOpportunity_def processForRole_def readOneDetails_def readOneHistory_def
  rawCWUOpportunityToCWUOpportunity_def resolveUser_def getValidValue_def
  resolveAttachment_def resolveAddendum_def readOneCWUOpportunityAddendum_def
  rawCWUOpportunityHistoryRecordToCWUOpportunityHistoryRecord_def
  rawCWUOpportunityAddendumToCWUOpportunityAddendum_def
  readOneCWUOpportunitySlim_def
  readManyCWUOpportunities_def readManyQuery_def readManyFilter_def selectOpportunitySlim_def
  rawCWUOpportunitySlimToCWUOpportunitySlim_def Let_def

lemmas spec_defs = isLatestStatusRow_def isLatestVersion_def hasCurrentStatus_def
  visibleTo_def notAdminNorAuthor_def linkedFiles_def linkedAddenda_def fileMissing_def
  addendumMissing_def

text \<open>The rows of the query are latest rows.\<close>

lemma readOneQuery_latest:
  assumes "(opp, stat, version) \<in> set (readOneQuery deps db i session)"
  shows "opp \<in> set (cwuOpportunities db)" "opp_id opp = i"
        "isLatestStatusRow db i stat" "isLatestVersion db i version"
        "readOneFilter deps session opp stat"
  using assms latestStatusAt_D[of db i "hist_createdAt stat"]
        latestVersionAt_D[of db i "ver_createdAt version"]
  by (auto simp: in_readOneQuery isLatestStatusRow_def isLatestVersion_def
           dest: readOneFilter_status)

lemma latest_hasCurrentStatus:
  "isLatestStatusRow db oid stat \<Longrightarrow> hist_status stat = Some y \<Longrightarrow> hasCurrentStatus db oid y"
  unfolding hasCurrentStatus_def by (auto simp: isLatestStatusRow_def)

lemma whereIn_SomeD: "whereIn c vs \<Longrightarrow> \<exists>y. c = Some y \<and> y \<in> set vs"
  by (auto simp: whereIn_def split: option.splits)

lemma readOneFilter_visible:
  assumes f: "readOneFilter deps session opp stat"
      and l: "isLatestStatusRow db (opp_id opp) stat"
      and o: "opp \<in> set (cwuOpportunities db)"
  shows "visibleTo deps db session (opp_id opp)"
proof (cases "session_user session")
  case None
  with f obtain y where "hist_status stat = Some y" "y \<in> set (publicOpportunityStatuses deps)"
    by (auto simp: readOneFilter_def dest: whereIn_SomeD)
  with l None show ?thesis
    by (auto simp: visibleTo_def dest: latest_hasCurrentStatus)
next
  case (Some u)
  show ?thesis
  proof (cases "user_type u")
    case Vendor
    with f Some obtain y where "hist_status stat = Some y" "y \<in> set (publicOpportunityStatuses deps)"
      by (auto simp: readOneFilter_def dest: whereIn_SomeD)
    with l Some Vendor show ?thesis
      by (auto simp: visibleTo_def dest: latest_hasCurrentStatus)
  next
    case Government
    with f Some consider
        (pub) y where "hist_status stat = Some y" "y \<in> set (publicOpportunityStatuses deps)"
      | (priv) y where "hist_status stat = Some y" "y \<in> set (privateOpportunitiesStatuses deps)"
                       "opp_createdBy opp = user_id u"
      by (auto simp: readOneFilter_def dest: whereIn_SomeD)
    then show ?thesis
    proof cases
      case pub
      with l have "hasCurrentStatus db (opp_id opp) y" by (auto dest: latest_hasCurrentStatus)
      with pub Some Government show ?thesis by (auto simp: visibleTo_def)
    next
      case priv
      with l have "hasCurrentStatus db (opp_id opp) y" by (auto dest: latest_hasCurrentStatus)
      with priv o Some Government show ?thesis by (auto simp: visibleTo_def)
    qed
  next
    case Admin
    with Some show ?thesis by (simp add: visibleTo_def)
  qed
qed


lemma readOne_ValidSomeD:
  assumes "readOneCWUOpportunity deps db i session = Valid (Some r)"
  shows "\<exists>opp stat version raw.
           first (readOneQuery deps db i session) = Some (opp, stat, version)
         \<and> readOneHistory deps db session
              (readOneDetails db i session
                 (processForRole (selectOpportunity opp stat version) session)) = Inr raw
         \<and> rawCWUOpportunityToCWUOpportunity deps db raw = Inr r"
  using assms
  by (auto simp: readOneCWUOpportunity_def tryDb_def split: option.splits sum.splits prod.splits)

lemma rawToOpportunity_fields:
  assumes "rawCWUOpportunityToCWUOpportunity deps db raw = Inr r"
  shows "r_id r = r_id raw" "r_createdAt r = r_createdAt raw"
        "r_updatedAt r = r_updatedAt raw" "r_status r = r_status raw"
        "r_versionId r = r_versionId raw" "r_content r = r_content raw"
        "r_createdBy r = resolveUser deps db (r_createdBy raw)"
        "r_updatedBy r = resolveUser deps db (r_updatedBy raw)"
        "promiseAll (resolveAttachment deps db) (r_attachments raw) = Inr (r_attachments r)"
        "promiseAll (resolveAddendum deps db) (r_addenda raw) = Inr (r_addenda r)"
  using assms
  by (auto simp: rawCWUOpportunityToCWUOpportunity_def Let_def split: sum.splits)

lemma readOneHistory_fields:
  assumes "readOneHistory deps db session result = Inr raw"
  shows "r_id raw = r_id result" "r_createdAt raw = r_createdAt result"
        "r_updatedAt raw = r_updatedAt result" "r_status raw = r_status result"
        "r_versionId raw = r_versionId result" "r_content raw = r_content result"
        "r_createdBy raw = r_createdBy result" "r_updatedBy raw = r_updatedBy result"
        "r_attachments raw = r_attachments result" "r_addenda raw = r_addenda result"
  using assms
  by (auto simp: readOneHistory_def Let_def split: sum.splits if_splits)

lemma readOneDetails_fields:
  shows "r_id (readOneDetails db i session result) = r_id result"
        "r_createdAt (readOneDetails db i session result) = r_createdAt result"
        "r_updatedAt (readOneDetails db i session result) = r_updatedAt result"
        "r_status (readOneDetails db i session result) = r_status result"
        "r_versionId (readOneDetails db i session result) = r_versionId result"
        "r_content (readOneDetails db i session result) = r_content result"
        "r_createdBy (readOneDetails db i session result) = r_createdBy result"
        "r_updatedBy (readOneDetails db i session result) = r_updatedBy result"
        "r_attachments (readOneDetails db i session result) =
           [att_file row. row \<leftarrow> cwuOpportunityAttachments db,
              att_opportunityVersion row = r_versionId result]"
        "r_addenda (readOneDetails db i session result) =
           [add_id row. row \<leftarrow> cwuOpportunityAddenda db, add_opportunity row = i]"
  by (auto simp: readOneDetails_def Let_def split: option.splits)

lemma processForRole_fields:
  shows "r_id (processForRole result session) = r_id result"
        "r_createdAt (processForRole result session) = r_createdAt result"
        "r_updatedAt (processForRole result session) = r_updatedAt result"
        "r_status (processForRole result session) = r_status result"
        "OpportunityBase.more (processForRole result session) = OpportunityBase.more result"
  by (auto simp: processForRole_def split: option.splits)

lemma processForRole_select:
  shows "r_versionId (processForRole (selectOpportunity opp stat version) session) = ver_id version"
        "r_content (processForRole (selectOpportunity opp stat version) session) = ver_content version"
  by (auto simp: processForRole_def selectOpportunity_def split: option.splits)

lemma processForRole_removed:
  assumes "r_createdBy result = Some c" "r_updatedBy result = Some e"
          "notAdminNorAuthor session c e"
  shows "r_createdBy (processForRole result session) = None"
        "r_updatedBy (processForRole result session) = None"
  using assms by (auto simp: processForRole_def notAdminNorAuthor_def split: option.splits)

lemma processForRole_kept:
  assumes "r_createdBy result = Some c" "r_updatedBy result = Some e"
          "\<not> notAdminNorAuthor session c e"
  shows "processForRole result session = result"
  using assms by (auto simp: processForRole_def notAdminNorAuthor_def split: option.splits)

subsection \<open>Visibility\<close>

lemma readOneQuery_row_visible:
  assumes "(opp, stat, version) \<in> set (readOneQuery deps db i session)"
  shows "visibleTo deps db session i"
  using readOneQuery_latest[OF assms] readOneFilter_visible[of deps session opp stat db]
  by simp

lemma readOne_result_id:
  assumes "readOneCWUOpportunity deps db i session = Valid (Some r)"
  shows "r_id r = i" "readOneQuery deps db i session \<noteq> []"
proof -
  from readOne_ValidSomeD[OF assms] obtain opp stat version raw where
    q: "first (readOneQuery deps db i session) = Some (opp, stat, version)" and
    h: "readOneHistory deps db session
              (readOneDetails db i session
                 (processForRole (selectOpportunity opp stat version) session)) = Inr raw" and
    c: "rawCWUOpportunityToCWUOpportunity deps db raw = Inr r" by blast
  from q have m: "(opp, stat, version) \<in> set (readOneQuery deps db i session)"
    by (rule first_SomeD)
  then show "readOneQuery deps db i session \<noteq> []" by auto
  from m have "opp_id opp = i" by (simp add: in_readOneQuery)
  then show "r_id r = i"
    using rawToOpportunity_fields(1)[OF c] readOneHistory_fields(1)[OF h]
    by (simp add: readOneDetails_fields processForRole_fields selectOpportunity_def)
qed

lemma readManyQuery_row_visible:
  assumes "(opp, stat, version) \<in> set (readManyQuery deps db session)"
  shows "visibleTo deps db session (opp_id opp)"
proof (cases "hist_status stat")
  case None
  with assms show ?thesis
    by (auto simp: in_readManyQuery readManyFilter_def visibleTo_def whereIn_def
             split: option.splits UserType.splits if_splits)
next
  case (Some y)
  from assms have mem: "stat \<in> set (cwuOpportunityStatuses db)" "hist_opportunity stat = opp_id opp"
      "opp \<in> set (cwuOpportunities db)" "readManyFilter deps session opp stat"
      and l: "latestHistoryAt db (opp_id opp) = Some (hist_createdAt stat)"
    by (simp_all add: in_readManyQuery)
  from latestHistoryAt_D[OF l] mem Some have latest: "isLatestStatusRow db (opp_id opp) stat"
    by (auto simp: isLatestStatusRow_def)
  have "readOneFilter deps session opp stat \<or> visibleTo deps db session (opp_id opp)"
    using mem(4) Some
    by (auto simp: readManyFilter_def readOneFilter_def visibleTo_def whereIn_def
             split: option.splits UserType.splits if_splits)
  then show ?thesis using readOneFilter_visible[OF _ latest mem(3)] by blast
qed

lemma readMany_ValidD:
  assumes "readManyCWUOpportunities deps db session = Valid rs"
  shows "rs = map (\<lambda>(opp, stat, version).
                rawCWUOpportunitySlimToCWUOpportunitySlim deps db
                  (processForRole (selectOpportunitySlim opp stat version) session))
              (readManyQuery deps db session)"
  using assms
  by (auto simp: readManyCWUOpportunities_def tryDb_def Let_def split_def)

lemma slim_id:
  "r_id (rawCWUOpportunitySlimToCWUOpportunitySlim deps db
           (processForRole (selectOpportunitySlim opp stat version) session)) = opp_id opp"
  by (simp add: rawCWUOpportunitySlimToCWUOpportunitySlim_def processForRole_fields
                selectOpportunitySlim_def)

text \<open>
  Claim C2. \<^verbatim>\<open>readOneCWUOpportunity\<close> and \<^verbatim>\<open>readManyCWUOpportunities\<close> return an
  opportunity only if it is visible to the session: to an anonymous session and to a
  vendor only with a public current status, to a government user only with a public
  current status or with a private one on an opportunity that the user created, to an
  admin always.
\<close>

theorem reads_return_only_visible:
  "(readOneCWUOpportunity deps db i session = Valid (Some r)
      \<longrightarrow> visibleTo deps db session (r_id r))
   \<and> (readManyCWUOpportunities deps db session = Valid rs
      \<longrightarrow> (\<forall>r'\<in>set rs. visibleTo deps db session (r_id r')))"
proof (intro conjI impI ballI)
  assume a: "readOneCWUOpportunity deps db i session = Valid (Some r)"
  from readOne_result_id(2)[OF a] obtain opp stat version where
    "(opp, stat, version) \<in> set (readOneQuery deps db i session)"
    by (cases "readOneQuery deps db i session") auto
  then have "visibleTo deps db session i"
    by (rule readOneQuery_row_visible)
  with readOne_result_id(1)[OF a] show "visibleTo deps db session (r_id r)" by simp
next
  fix r' assume a: "readManyCWUOpportunities deps db session = Valid rs" and m: "r' \<in> set rs"
  from m readMany_ValidD[OF a] obtain opp stat version where
    row: "(opp, stat, version) \<in> set (readManyQuery deps db session)" and
    r': "r' = rawCWUOpportunitySlimToCWUOpportunitySlim deps db
                  (processForRole (selectOpportunitySlim opp stat version) session)"
    by auto
  from r' have "r_id r' = opp_id opp" by (simp add: slim_id)
  with readManyQuery_row_visible[OF row] show "visibleTo deps db session (r_id r')" by simp
qed

text \<open>
  Claim C10. When the opportunity does not exist or is not visible to the session,
  \<^verbatim>\<open>readOneCWUOpportunity\<close> returns a valid result with value null and
  \<^verbatim>\<open>readOneCWUOpportunitySlim\<close> returns an invalid result; and
  \<^verbatim>\<open>readOneCWUOpportunitySlim\<close> never returns a valid null.
\<close>

theorem readOne_null_readOneSlim_invalid:
  "((\<forall>opp\<in>set (cwuOpportunities db). opp_id opp \<noteq> i) \<or> \<not> visibleTo deps db session i
      \<longrightarrow> readOneCWUOpportunity deps db i session = Valid None
          \<and> readOneCWUOpportunitySlim deps db i session = Invalid)
   \<and> readOneCWUOpportunitySlim deps db i session \<noteq> Valid None"
proof (intro conjI impI)
  assume a: "(\<forall>opp\<in>set (cwuOpportunities db). opp_id opp \<noteq> i) \<or> \<not> visibleTo deps db session i"
  have "readOneQuery deps db i session = []"
  proof (rule ccontr)
    assume "readOneQuery deps db i session \<noteq> []"
    then obtain opp stat version where
      row: "(opp, stat, version) \<in> set (readOneQuery deps db i session)"
      by (cases "readOneQuery deps db i session") auto
    from readOneQuery_row_visible[OF row] readOneQuery_latest(1,2)[OF row] a
    show False by auto
  qed
  then show n: "readOneCWUOpportunity deps db i session = Valid None"
    by (simp add: readOneCWUOpportunity_def tryDb_def)
  then show "readOneCWUOpportunitySlim deps db i session = Invalid"
    by (simp add: readOneCWUOpportunitySlim_def tryDb_def)
next
  show "readOneCWUOpportunitySlim deps db i session \<noteq> Valid None"
    by (auto simp: readOneCWUOpportunitySlim_def tryDb_def split: Validation.splits option.splits)
qed

subsection \<open>The reads of the example data\<close>

lemma readOne_published_anonymous:
  "readOneCWUOpportunity exampleDeps publishedDb ''o1'' anonymous
     = Valid (Some (publishedView None None True))"
  by (simp add: read_defs example_defs)

lemma readOne_published_vendor:
  "readOneCWUOpportunity exampleDeps publishedDb ''o1'' vendorSession
     = Valid (Some (publishedView None (Some False) False))"
  by (simp add: read_defs example_defs)

lemma readOne_published_admin:
  "readOneCWUOpportunity exampleDeps publishedDb ''o1'' adminSession
     = Valid (Some (publishedView (Some userG1) (Some False) True))"
  by (simp add: read_defs example_defs)

lemma readMany_published_vendor:
  "readManyCWUOpportunities exampleDeps publishedDb vendorSession
     = Valid [publishedSlim None (Some Published)]"
  by (simp add: read_defs example_defs)

lemma readManyQuery_published_vendor:
  "readManyQuery exampleDeps publishedDb vendorSession
     = [(\<lparr>opp_id = ''o1'', opp_createdAt = 10, opp_createdBy = ''g1''\<rparr>,
         publishedRow ''s1'' ''o1'' 20,
         \<lparr>ver_id = ''v1'', ver_opportunity = ''o1'', ver_createdAt = 10, ver_createdBy = ''g1'',
           ver_content = exampleContent\<rparr>)]"
  by (simp add: read_defs example_defs)

lemma readOneQuery_published:
  "readOneQuery exampleDeps publishedDb ''o1'' vendorSession
     = [(\<lparr>opp_id = ''o1'', opp_createdAt = 10, opp_createdBy = ''g1''\<rparr>,
         publishedRow ''s1'' ''o1'' 20,
         \<lparr>ver_id = ''v1'', ver_opportunity = ''o1'', ver_createdAt = 10, ver_createdBy = ''g1'',
           ver_content = exampleContent\<rparr>)]"
  by (simp add: read_defs example_defs)

lemma visible_published_vendor: "visibleTo exampleDeps publishedDb vendorSession ''o1''"
  by (simp add: spec_defs example_defs)

theorem reads_return_only_visible_witness:
  "readOneCWUOpportunity exampleDeps publishedDb ''o1'' vendorSession
     = Valid (Some (publishedView None (Some False) False))
   \<and> visibleTo exampleDeps publishedDb vendorSession (r_id (publishedView None (Some False) False))
   \<and> readManyCWUOpportunities exampleDeps publishedDb vendorSession
     = Valid [publishedSlim None (Some Published)]
   \<and> visibleTo exampleDeps publishedDb vendorSession
         (r_id (publishedSlim None (Some Published)))"
  using reads_return_only_visible
          [of exampleDeps publishedDb "''o1''" vendorSession
              "publishedView None (Some False) False" "[publishedSlim None (Some Published)]"]
        readOne_published_vendor readMany_published_vendor
  by simp

theorem readOne_null_readOneSlim_invalid_witness:
  "''o2'' \<notin> opp_id ` set (cwuOpportunities publishedDb)
   \<and> readOneCWUOpportunity exampleDeps publishedDb ''o2'' adminSession = Valid None
   \<and> readOneCWUOpportunitySlim exampleDeps publishedDb ''o2'' adminSession = Invalid
   \<and> \<not> visibleTo exampleDeps draftDb anonymous ''o1''
   \<and> readOneCWUOpportunity exampleDeps draftDb ''o1'' anonymous = Valid None
   \<and> readOneCWUOpportunitySlim exampleDeps draftDb ''o1'' anonymous = Invalid"
proof -
  have h1: "\<forall>opp\<in>set (cwuOpportunities publishedDb). opp_id opp \<noteq> ''o2''"
    by (simp add: example_defs)
  have h2: "\<not> visibleTo exampleDeps draftDb anonymous ''o1''"
    by (simp add: spec_defs example_defs)
  show ?thesis
    using readOne_null_readOneSlim_invalid [of publishedDb "''o2''" exampleDeps adminSession]
          readOne_null_readOneSlim_invalid [of draftDb "''o1''" exampleDeps anonymous]
          h1 h2
    by auto
qed

subsection \<open>Links that do not resolve\<close>

lemma promiseAll_Inl:
  "x \<in> set xs \<Longrightarrow> f x = Inl e \<Longrightarrow> \<exists>e'. promiseAll f xs = Inl e'"
  by (induction xs) (auto split: sum.splits)

lemma fileMissing_resolve:
  "fileMissing deps db f \<Longrightarrow> resolveAttachment deps db f = Inl ''unable to process opportunity''"
  by (simp add: fileMissing_def resolveAttachment_def)

lemma addendumMissing_resolve:
  "addendumMissing deps db a \<Longrightarrow> resolveAddendum deps db a = Inl ''unable to retrieve addenda''"
  by (simp add: addendumMissing_def resolveAddendum_def)

lemma rawToOpportunity_missing:
  assumes "(\<exists>f\<in>set (r_attachments raw). fileMissing deps db f)
            \<or> (\<exists>a\<in>set (r_addenda raw). addendumMissing deps db a)"
  shows "\<exists>e. rawCWUOpportunityToCWUOpportunity deps db raw = Inl e"
  using assms
proof
  assume "\<exists>f\<in>set (r_attachments raw). fileMissing deps db f"
  then obtain f where "f \<in> set (r_attachments raw)" "fileMissing deps db f" by blast
  then obtain e where "promiseAll (resolveAttachment deps db) (r_attachments raw) = Inl e"
    using promiseAll_Inl [of f "r_attachments raw" "resolveAttachment deps db", OF _ fileMissing_resolve]
    by blast
  then show ?thesis by (simp add: rawCWUOpportunityToCWUOpportunity_def)
next
  assume "\<exists>a\<in>set (r_addenda raw). addendumMissing deps db a"
  then obtain a where "a \<in> set (r_addenda raw)" "addendumMissing deps db a" by blast
  then obtain e where "promiseAll (resolveAddendum deps db) (r_addenda raw) = Inl e"
    using promiseAll_Inl [of a "r_addenda raw" "resolveAddendum deps db", OF _ addendumMissing_resolve]
    by blast
  then show ?thesis
    by (auto simp: rawCWUOpportunityToCWUOpportunity_def split: sum.splits)
qed

lemma promiseAll_InrD:
  "promiseAll f xs = Inr ys \<Longrightarrow> list_all2 (\<lambda>x y. f x = Inr y) xs ys"
  by (induction xs arbitrary: ys) (auto split: sum.splits)

lemma resolveAttachment_InrD:
  "resolveAttachment deps db f = Inr rec \<Longrightarrow>
     getValidValue (readOneFileById deps db f) None = Some rec"
  by (auto simp: resolveAttachment_def split: option.splits)

lemma resolveAddendum_InrD:
  "resolveAddendum deps db a = Inr rec \<Longrightarrow>
     getValidValue (map_Validation Some (readOneCWUOpportunityAddendum deps db a)) None = Some rec"
  by (auto simp: resolveAddendum_def split: option.splits)

lemma readOneAt_same:
  "readOneCWUOpportunityAt deps db db i session = readOneCWUOpportunity deps db i session"
  by (simp add: readOneCWUOpportunityAt_def readOneCWUOpportunity_def)

lemma readOneAt_ValidSomeD:
  assumes "readOneCWUOpportunityAt deps db db2 i session = Valid (Some r)"
  shows "\<exists>opp stat version raw.
           first (readOneQuery deps db i session) = Some (opp, stat, version)
         \<and> readOneHistory deps db session
              (readOneDetails db i session
                 (processForRole (selectOpportunity opp stat version) session)) = Inr raw
         \<and> rawCWUOpportunityToCWUOpportunity deps db2 raw = Inr r"
  using assms
  by (auto simp: readOneCWUOpportunityAt_def tryDb_def split: option.splits sum.splits prod.splits)

text \<open>A missing link makes the read invalid.\<close>

lemma readOneAt_missing_Invalid:
  assumes found: "first (readOneQuery deps db i session) = Some (opp, stat, version)"
      and missing: "(\<exists>f\<in>set (linkedFiles db (ver_id version)). fileMissing deps db2 f)
                     \<or> (\<exists>a\<in>set (linkedAddenda db i). addendumMissing deps db2 a)"
  shows "readOneCWUOpportunityAt deps db db2 i session = Invalid"
proof (cases "readOneHistory deps db session
                (readOneDetails db i session
                   (processForRole (selectOpportunity opp stat version) session))")
  case (Inl e)
  with found show ?thesis by (simp add: readOneCWUOpportunityAt_def tryDb_def)
next
  case (Inr raw)
  have "r_attachments raw = linkedFiles db (ver_id version)"
       "r_addenda raw = linkedAddenda db i"
    using readOneHistory_fields(9,10)[OF Inr]
    by (simp_all add: readOneDetails_fields processForRole_select linkedFiles_def
                      linkedAddenda_def)
  with missing obtain e where "rawCWUOpportunityToCWUOpportunity deps db2 raw = Inl e"
    using rawToOpportunity_missing[of raw deps db2] by auto
  with found Inr show ?thesis by (simp add: readOneCWUOpportunityAt_def tryDb_def)
qed

text \<open>A valid read has resolved every link.\<close>

lemma readOneAt_Valid_resolved:
  assumes "readOneCWUOpportunityAt deps db db2 i session = Valid (Some r)"
  shows "list_all2 (\<lambda>f rec. getValidValue (readOneFileById deps db2 f) None = Some rec)
           (linkedFiles db (r_versionId r)) (r_attachments r)"
    and "list_all2 (\<lambda>a rec. getValidValue
                      (map_Validation Some (readOneCWUOpportunityAddendum deps db2 a)) None
                    = Some rec)
           (linkedAddenda db i) (r_addenda r)"
proof -
  from readOneAt_ValidSomeD[OF assms] obtain opp stat version raw where
    h: "readOneHistory deps db session
              (readOneDetails db i session
                 (processForRole (selectOpportunity opp stat version) session)) = Inr raw" and
    c: "rawCWUOpportunityToCWUOpportunity deps db2 raw = Inr r" by blast
  have v: "r_versionId r = ver_id version"
    using rawToOpportunity_fields(5)[OF c] readOneHistory_fields(5)[OF h]
    by (simp add: readOneDetails_fields processForRole_select)
  have l: "r_attachments raw = linkedFiles db (ver_id version)"
          "r_addenda raw = linkedAddenda db i"
    using readOneHistory_fields(9,10)[OF h]
    by (simp_all add: readOneDetails_fields processForRole_select linkedFiles_def
                      linkedAddenda_def)
  from promiseAll_InrD[OF rawToOpportunity_fields(9)[OF c]]
  show "list_all2 (\<lambda>f rec. getValidValue (readOneFileById deps db2 f) None = Some rec)
           (linkedFiles db (r_versionId r)) (r_attachments r)"
    unfolding l v by (rule list_all2_mono) (rule resolveAttachment_InrD)
  from promiseAll_InrD[OF rawToOpportunity_fields(10)[OF c]]
  show "list_all2 (\<lambda>a rec. getValidValue
                      (map_Validation Some (readOneCWUOpportunityAddendum deps db2 a)) None
                    = Some rec)
           (linkedAddenda db i) (r_addenda r)"
    unfolding l by (rule list_all2_mono) (rule resolveAddendum_InrD)
qed

text \<open>
  Claim C7. If \<^verbatim>\<open>readOneCWUOpportunity\<close> finds a visible opportunity and one of the
  files that its version links to, or one of its addenda, cannot be resolved to a full
  record when the records are read, the whole read is invalid; and a valid read has a full
  record for every linked file and every linked addendum, so that no partial opportunity
  is returned. The conversion \<^verbatim>\<open>rawCWUOpportunityToCWUOpportunity\<close> throws on any raw record
  one of whose file ids or addendum ids does not resolve. In a database that nothing
  writes to during the read, a linked addendum is found again, and the read is invalid
  when a linked file is missing.
\<close>

theorem readOne_invalid_on_missing_link:
  "(first (readOneQuery deps db i session) = Some (opp, stat, version)
      \<and> ((\<exists>f\<in>set (linkedFiles db (ver_id version)). fileMissing deps db2 f)
           \<or> (\<exists>a\<in>set (linkedAddenda db i). addendumMissing deps db2 a))
      \<longrightarrow> readOneCWUOpportunityAt deps db db2 i session = Invalid)
   \<and> (readOneCWUOpportunityAt deps db db2 i session = Valid (Some r)
      \<longrightarrow> list_all2 (\<lambda>f rec. getValidValue (readOneFileById deps db2 f) None = Some rec)
            (linkedFiles db (r_versionId r)) (r_attachments r)
        \<and> list_all2 (\<lambda>a rec. getValidValue
                         (map_Validation Some (readOneCWUOpportunityAddendum deps db2 a)) None
                       = Some rec)
            (linkedAddenda db i) (r_addenda r))
   \<and> ((\<exists>f\<in>set (r_attachments raw). fileMissing deps db f)
        \<or> (\<exists>a\<in>set (r_addenda raw). addendumMissing deps db a)
      \<longrightarrow> (\<exists>e. rawCWUOpportunityToCWUOpportunity deps db raw = Inl e))
   \<and> readOneCWUOpportunityAt deps db db i session = readOneCWUOpportunity deps db i session
   \<and> (first (readOneQuery deps db i session) = Some (opp, stat, version)
      \<and> (\<exists>f\<in>set (linkedFiles db (ver_id version)). fileMissing deps db f)
      \<longrightarrow> readOneCWUOpportunity deps db i session = Invalid)"
proof (intro conjI impI)
  assume "first (readOneQuery deps db i session) = Some (opp, stat, version)
      \<and> ((\<exists>f\<in>set (linkedFiles db (ver_id version)). fileMissing deps db2 f)
           \<or> (\<exists>a\<in>set (linkedAddenda db i). addendumMissing deps db2 a))"
  then show "readOneCWUOpportunityAt deps db db2 i session = Invalid"
    using readOneAt_missing_Invalid by blast
next
  assume a: "readOneCWUOpportunityAt deps db db2 i session = Valid (Some r)"
  show "list_all2 (\<lambda>f rec. getValidValue (readOneFileById deps db2 f) None = Some rec)
            (linkedFiles db (r_versionId r)) (r_attachments r)"
    by (rule readOneAt_Valid_resolved(1)[OF a])
  show "list_all2 (\<lambda>a rec. getValidValue
                         (map_Validation Some (readOneCWUOpportunityAddendum deps db2 a)) None
                       = Some rec)
            (linkedAddenda db i) (r_addenda r)"
    by (rule readOneAt_Valid_resolved(2)[OF a])
next
  assume "(\<exists>f\<in>set (r_attachments raw). fileMissing deps db f)
        \<or> (\<exists>a\<in>set (r_addenda raw). addendumMissing deps db a)"
  then show "\<exists>e. rawCWUOpportunityToCWUOpportunity deps db raw = Inl e"
    by (rule rawToOpportunity_missing)
next
  show "readOneCWUOpportunityAt deps db db i session = readOneCWUOpportunity deps db i session"
    by (rule readOneAt_same)
next
  assume "first (readOneQuery deps db i session) = Some (opp, stat, version)
      \<and> (\<exists>f\<in>set (linkedFiles db (ver_id version)). fileMissing deps db f)"
  then have "readOneCWUOpportunityAt deps db db i session = Invalid"
    using readOneAt_missing_Invalid[of deps db i session opp stat version db] by blast
  then show "readOneCWUOpportunity deps db i session = Invalid"
    by (simp add: readOneAt_same)
qed

lemma readOneQuery_dangling:
  "readOneQuery exampleDeps danglingDb ''o1'' adminSession
     = [(\<lparr>opp_id = ''o1'', opp_createdAt = 10, opp_createdBy = ''g1''\<rparr>,
         publishedRow ''s1'' ''o1'' 20,
         \<lparr>ver_id = ''v1'', ver_opportunity = ''o1'', ver_createdAt = 10, ver_createdBy = ''g1'',
           ver_content = exampleContent\<rparr>)]"
  by (simp add: read_defs example_defs)

lemma readOneQuery_addendum:
  "readOneQuery exampleDeps addendumDb ''o1'' adminSession
     = [(\<lparr>opp_id = ''o1'', opp_createdAt = 10, opp_createdBy = ''g1''\<rparr>,
         publishedRow ''s1'' ''o1'' 20,
         \<lparr>ver_id = ''v1'', ver_opportunity = ''o1'', ver_createdAt = 10, ver_createdBy = ''g1'',
           ver_content = exampleContent\<rparr>)]"
  by (simp add: read_defs example_defs addendumDb_def intoAddenda_def)

lemma readOneAt_addendum_present:
  "readOneCWUOpportunityAt exampleDeps addendumDb addendumDb ''o1'' adminSession \<noteq> Invalid"
  by (simp add: readOneCWUOpportunityAt_def read_defs example_defs addendumDb_def
                intoAddenda_def)

text \<open>
  The addendum \<open>a1\<close> of the example opportunity is there when its id is read and gone when
  the record is read: the read is invalid, where it is valid when the addendum is still
  there. A file that is missing makes the read invalid in one and the same database.
\<close>

theorem readOne_invalid_on_missing_link_witness:
  "linkedAddenda addendumDb ''o1'' = [''a1'']
   \<and> addendumMissing exampleDeps publishedDb ''a1''
   \<and> readOneCWUOpportunityAt exampleDeps addendumDb publishedDb ''o1'' adminSession = Invalid
   \<and> readOneCWUOpportunityAt exampleDeps addendumDb addendumDb ''o1'' adminSession \<noteq> Invalid
   \<and> r_addenda rawWithAddendum = [''a1'']
   \<and> (\<exists>e. rawCWUOpportunityToCWUOpportunity exampleDeps publishedDb rawWithAddendum = Inl e)
   \<and> linkedFiles danglingDb ''v1'' = [''f1'', ''f2'']
   \<and> fileMissing exampleDeps danglingDb ''f2''
   \<and> readOneCWUOpportunity exampleDeps danglingDb ''o1'' adminSession = Invalid"
proof -
  let ?opp = "\<lparr>opp_id = ''o1'', opp_createdAt = 10, opp_createdBy = ''g1''\<rparr>"
  let ?ver = "\<lparr>ver_id = ''v1'', ver_opportunity = ''o1'', ver_createdAt = 10,
               ver_createdBy = ''g1'', ver_content = exampleContent\<rparr>"
  have la: "linkedAddenda addendumDb ''o1'' = [''a1'']"
    by (simp add: linkedAddenda_def addendumDb_def intoAddenda_def example_defs)
  have ma: "addendumMissing exampleDeps publishedDb ''a1''"
    by (simp add: addendumMissing_def readOneCWUOpportunityAddendum_def tryDb_def
                  getValidValue_def example_defs)
  have ra: "r_addenda rawWithAddendum = [''a1'']"
    by (simp add: rawWithAddendum_def)
  have l: "linkedFiles danglingDb ''v1'' = [''f1'', ''f2'']"
    by (simp add: linkedFiles_def example_defs)
  have m: "fileMissing exampleDeps danglingDb ''f2''"
    by (simp add: fileMissing_def getValidValue_def example_defs)
  have fa: "first (readOneQuery exampleDeps addendumDb ''o1'' adminSession)
     = Some (?opp, publishedRow ''s1'' ''o1'' 20, ?ver)"
    by (simp add: readOneQuery_addendum)
  have f: "first (readOneQuery exampleDeps danglingDb ''o1'' adminSession)
     = Some (?opp, publishedRow ''s1'' ''o1'' 20, ?ver)"
    by (simp add: readOneQuery_dangling)
  note t1 = readOne_invalid_on_missing_link
              [where deps = exampleDeps and db = addendumDb and ?db2.0 = publishedDb
                 and i = "''o1''" and session = adminSession and opp = ?opp
                 and stat = "publishedRow ''s1'' ''o1'' 20" and version = ?ver
                 and raw = rawWithAddendum]
  note t2 = readOne_invalid_on_missing_link
              [where deps = exampleDeps and db = danglingDb and ?db2.0 = danglingDb
                 and i = "''o1''" and session = adminSession and opp = ?opp
                 and stat = "publishedRow ''s1'' ''o1'' 20" and version = ?ver
                 and raw = rawWithAddendum]
  note t3 = readOne_invalid_on_missing_link
              [where deps = exampleDeps and db = publishedDb and raw = rawWithAddendum]
  from t1 fa la ma
  have a: "readOneCWUOpportunityAt exampleDeps addendumDb publishedDb ''o1'' adminSession = Invalid"
    by simp
  from t3 ra ma
  have b: "\<exists>e. rawCWUOpportunityToCWUOpportunity exampleDeps publishedDb rawWithAddendum = Inl e"
    by simp
  from t2 f l m
  have c: "readOneCWUOpportunity exampleDeps danglingDb ''o1'' adminSession = Invalid"
    by simp
  from la ma a readOneAt_addendum_present ra b l m c show ?thesis by simp
qed

subsection \<open>Creator and editor\<close>

lemma select_authors:
  "r_createdBy (selectOpportunity opp stat version) = Some (opp_createdBy opp)"
  "r_updatedBy (selectOpportunity opp stat version) = Some (ver_createdBy version)"
  "r_createdBy (selectOpportunitySlim opp stat version) = Some (opp_createdBy opp)"
  "r_updatedBy (selectOpportunitySlim opp stat version) = Some (ver_createdBy version)"
  by (simp_all add: selectOpportunity_def selectOpportunitySlim_def)

lemma resolveUser_None: "resolveUser deps db None = None"
  by (simp add: resolveUser_def)

text \<open>The authors of the record that \<^verbatim>\<open>readOneCWUOpportunity\<close> returns.\<close>

lemma readOne_authors:
  assumes r: "readOneCWUOpportunity deps db i session = Valid (Some r)"
      and q: "first (readOneQuery deps db i session) = Some (opp, stat, version)"
  shows "r_createdBy r =
           (if notAdminNorAuthor session (opp_createdBy opp) (ver_createdBy version) then None
            else resolveUser deps db (Some (opp_createdBy opp)))"
        "r_updatedBy r =
           (if notAdminNorAuthor session (opp_createdBy opp) (ver_createdBy version) then None
            else resolveUser deps db (Some (ver_createdBy version)))"
proof -
  let ?p = "processForRole (selectOpportunity opp stat version) session"
  from readOne_ValidSomeD[OF r] q obtain raw where
    h: "readOneHistory deps db session (readOneDetails db i session ?p) = Inr raw" and
    c: "rawCWUOpportunityToCWUOpportunity deps db raw = Inr r" by auto
  have cb: "r_createdBy r = resolveUser deps db (r_createdBy ?p)"
   and ub: "r_updatedBy r = resolveUser deps db (r_updatedBy ?p)"
    using rawToOpportunity_fields(7,8)[OF c] readOneHistory_fields(7,8)[OF h]
    by (simp_all add: readOneDetails_fields)
  have keep: "\<not> notAdminNorAuthor session (opp_createdBy opp) (ver_createdBy version)
                \<Longrightarrow> ?p = selectOpportunity opp stat version"
    by (rule processForRole_kept[OF select_authors(1,2)])
  have drop: "notAdminNorAuthor session (opp_createdBy opp) (ver_createdBy version)
                \<Longrightarrow> r_createdBy ?p = None \<and> r_updatedBy ?p = None"
    using processForRole_removed[OF select_authors(1,2)] by blast
  show "r_createdBy r =
           (if notAdminNorAuthor session (opp_createdBy opp) (ver_createdBy version) then None
            else resolveUser deps db (Some (opp_createdBy opp)))"
    using cb keep drop by (auto simp: resolveUser_None select_authors)
  show "r_updatedBy r =
           (if notAdminNorAuthor session (opp_createdBy opp) (ver_createdBy version) then None
            else resolveUser deps db (Some (ver_createdBy version)))"
    using ub keep drop by (auto simp: resolveUser_None select_authors)
qed

lemma slim_authors_removed:
  assumes "notAdminNorAuthor session (opp_createdBy opp) (ver_createdBy version)"
  shows "r_createdBy (rawCWUOpportunitySlimToCWUOpportunitySlim deps db
           (processForRole (selectOpportunitySlim opp stat version) session)) = None"
        "r_updatedBy (rawCWUOpportunitySlimToCWUOpportunitySlim deps db
           (processForRole (selectOpportunitySlim opp stat version) session)) = None"
  using processForRole_removed[OF select_authors(3,4) assms]
  by (simp_all add: rawCWUOpportunitySlimToCWUOpportunitySlim_def resolveUser_None)

text \<open>
  Claim C9. For a session that is unauthenticated, or whose user is neither an admin nor
  the user recorded as the opportunity's \<^verbatim>\<open>createdBy\<close> or \<^verbatim>\<open>updatedBy\<close>, the records
  that \<^verbatim>\<open>readOneCWUOpportunity\<close> and \<^verbatim>\<open>readManyCWUOpportunities\<close> return have no
  \<^verbatim>\<open>createdBy\<close> and no \<^verbatim>\<open>updatedBy\<close>. The listing has one record for each row of its
  query, in order.
\<close>

theorem authors_removed_for_other_roles:
  "(readOneCWUOpportunity deps db i session = Valid (Some r)
      \<and> first (readOneQuery deps db i session) = Some (opp, stat, version)
      \<and> notAdminNorAuthor session (opp_createdBy opp) (ver_createdBy version)
      \<longrightarrow> r_createdBy r = None \<and> r_updatedBy r = None)
   \<and> (readManyCWUOpportunities deps db session = Valid rs
      \<longrightarrow> list_all2
            (\<lambda>(opp', stat', version') r'.
               r_id r' = opp_id opp'
               \<and> (notAdminNorAuthor session (opp_createdBy opp') (ver_createdBy version')
                    \<longrightarrow> r_createdBy r' = None \<and> r_updatedBy r' = None))
            (readManyQuery deps db session) rs)"
proof (intro conjI impI)
  assume a: "readOneCWUOpportunity deps db i session = Valid (Some r)
      \<and> first (readOneQuery deps db i session) = Some (opp, stat, version)
      \<and> notAdminNorAuthor session (opp_createdBy opp) (ver_createdBy version)"
  then show "r_createdBy r = None" using readOne_authors(1)[of deps db i session r opp stat version]
    by simp
  from a show "r_updatedBy r = None" using readOne_authors(2)[of deps db i session r opp stat version]
    by simp
next
  assume a: "readManyCWUOpportunities deps db session = Valid rs"
  show "list_all2
            (\<lambda>(opp', stat', version') r'.
               r_id r' = opp_id opp'
               \<and> (notAdminNorAuthor session (opp_createdBy opp') (ver_createdBy version')
                    \<longrightarrow> r_createdBy r' = None \<and> r_updatedBy r' = None))
            (readManyQuery deps db session) rs"
    unfolding readMany_ValidD[OF a] list_all2_map2
    by (rule list_all2_refl) (auto simp: slim_id slim_authors_removed)
qed

theorem authors_removed_for_other_roles_witness:
  "readOneCWUOpportunity exampleDeps publishedDb ''o1'' vendorSession
     = Valid (Some (publishedView None (Some False) False))
   \<and> notAdminNorAuthor vendorSession ''g1'' ''g1''
   \<and> r_createdBy (publishedView None (Some False) False) = None
   \<and> r_updatedBy (publishedView None (Some False) False) = None
   \<and> readManyCWUOpportunities exampleDeps publishedDb vendorSession
        = Valid [publishedSlim None (Some Published)]
   \<and> r_createdBy (publishedSlim None (Some Published)) = None
   \<and> r_updatedBy (publishedSlim None (Some Published)) = None"
proof -
  have n: "notAdminNorAuthor vendorSession ''g1'' ''g1''"
    by (simp add: notAdminNorAuthor_def vendorSession_def exampleUser_def)
  show ?thesis
    using authors_removed_for_other_roles
            [of exampleDeps publishedDb "''o1''" vendorSession
                "publishedView None (Some False) False"
                "\<lparr>opp_id = ''o1'', opp_createdAt = 10, opp_createdBy = ''g1''\<rparr>"
                "publishedRow ''s1'' ''o1'' 20"
                "\<lparr>ver_id = ''v1'', ver_opportunity = ''o1'', ver_createdAt = 10,
                  ver_createdBy = ''g1'', ver_content = exampleContent\<rparr>"
                "[publishedSlim None (Some Published)]"]
          readOne_published_vendor readMany_published_vendor readOneQuery_published
          readManyQuery_published_vendor n
    by simp
qed

subsection \<open>The join of root, latest version and latest status\<close>

lemma processForRole_select_base:
  shows "r_id (processForRole (selectOpportunity opp stat version) session) = opp_id opp"
        "r_createdAt (processForRole (selectOpportunity opp stat version) session) = opp_createdAt opp"
        "r_updatedAt (processForRole (selectOpportunity opp stat version) session) = ver_createdAt version"
        "r_status (processForRole (selectOpportunity opp stat version) session) = hist_status stat"
  by (simp_all add: processForRole_fields selectOpportunity_def)

text \<open>
  Claim C1, as amended. The record that \<^verbatim>\<open>readOneCWUOpportunity\<close> returns is the join of
  the root record (its id and creation date), of a version row with the maximum creation
  date among the opportunity's versions (its id, content, and creation date as the date of
  the update) and of the status of a status row with the maximum creation date among the
  opportunity's rows that have a status. The creator and the editor are the users that
  the root's and the version's \<^verbatim>\<open>createdBy\<close> resolve to when the session's user is an
  admin, the creator or the editor; for every other session they are absent.
\<close>

theorem readOne_returns_latest_join:
  assumes "readOneCWUOpportunity deps db i session = Valid (Some r)"
  shows "\<exists>opp\<in>set (cwuOpportunities db). \<exists>stat version.
           opp_id opp = i \<and> isLatestStatusRow db i stat \<and> isLatestVersion db i version
         \<and> r_id r = opp_id opp \<and> r_createdAt r = opp_createdAt opp
         \<and> r_versionId r = ver_id version \<and> r_updatedAt r = ver_createdAt version
         \<and> r_content r = ver_content version
         \<and> r_status r = hist_status stat
         \<and> r_createdBy r =
              (if notAdminNorAuthor session (opp_createdBy opp) (ver_createdBy version) then None
               else resolveUser deps db (Some (opp_createdBy opp)))
         \<and> r_updatedBy r =
              (if notAdminNorAuthor session (opp_createdBy opp) (ver_createdBy version) then None
               else resolveUser deps db (Some (ver_createdBy version)))"
proof -
  let ?p = "\<lambda>opp stat version. processForRole (selectOpportunity opp stat version) session"
  from readOne_ValidSomeD[OF assms] obtain opp stat version raw where
    q: "first (readOneQuery deps db i session) = Some (opp, stat, version)" and
    h: "readOneHistory deps db session (readOneDetails db i session (?p opp stat version)) = Inr raw" and
    c: "rawCWUOpportunityToCWUOpportunity deps db raw = Inr r" by blast
  from q have m: "(opp, stat, version) \<in> set (readOneQuery deps db i session)"
    by (rule first_SomeD)
  note l = readOneQuery_latest[OF m]
  have f: "r_id r = opp_id opp" "r_createdAt r = opp_createdAt opp"
          "r_versionId r = ver_id version" "r_updatedAt r = ver_createdAt version"
          "r_content r = ver_content version" "r_status r = hist_status stat"
    using rawToOpportunity_fields(1-6)[OF c] readOneHistory_fields(1-6)[OF h]
    by (simp_all add: readOneDetails_fields processForRole_select_base processForRole_select)
  show ?thesis
    using l f readOne_authors[OF assms q] by blast
qed

theorem readOne_returns_latest_join_witness:
  "readOneCWUOpportunity exampleDeps publishedDb ''o1'' adminSession
     = Valid (Some (publishedView (Some userG1) (Some False) True))
   \<and> (\<exists>opp\<in>set (cwuOpportunities publishedDb). \<exists>stat version.
           opp_id opp = ''o1'' \<and> isLatestStatusRow publishedDb ''o1'' stat
         \<and> isLatestVersion publishedDb ''o1'' version
         \<and> r_id (publishedView (Some userG1) (Some False) True) = opp_id opp
         \<and> r_content (publishedView (Some userG1) (Some False) True) = ver_content version
         \<and> r_status (publishedView (Some userG1) (Some False) True) = hist_status stat
         \<and> r_createdBy (publishedView (Some userG1) (Some False) True) =
              resolveUser exampleDeps publishedDb (Some (opp_createdBy opp)))"
proof -
  have n: "\<And>c e. \<not> notAdminNorAuthor adminSession c e"
    by (simp add: notAdminNorAuthor_def adminSession_def exampleUser_def)
  show ?thesis
    using readOne_returns_latest_join [OF readOne_published_admin] readOne_published_admin n
    by (simp only: simp_thms if_False) blast
qed

text \<open>
  Claim C1 as stated has the root record supply \<^verbatim>\<open>createdBy\<close> and the version
  \<^verbatim>\<open>updatedBy\<close>. For an anonymous session the record has neither, although the only
  opportunity of the database has a creator, who resolves to a user.
\<close>

theorem readOne_join_authors_counterexample:
  "cwuOpportunities publishedDb = [\<lparr>opp_id = ''o1'', opp_createdAt = 10, opp_createdBy = ''g1''\<rparr>]
   \<and> resolveUser exampleDeps publishedDb (Some ''g1'') = Some userG1
   \<and> readOneCWUOpportunity exampleDeps publishedDb ''o1'' anonymous
       = Valid (Some (publishedView None None True))
   \<and> r_createdBy (publishedView None None True) = None
   \<and> r_updatedBy (publishedView None None True) = None"
  using readOne_published_anonymous
  by (simp add: publishedDb_def resolveUser_def getValidValue_def exampleDeps_def userG1_def
                publishedView_def)

text \<open>
  Claim C3. The listing joins on the latest history row of any kind, where the read of one
  opportunity joins on the latest row that has a status. After an edit, the published
  opportunity is missing from the listing of an anonymous session, and in the listing of
  an admin it has no status; the read of the one opportunity still finds it published.
\<close>

theorem readMany_drops_status_after_event:
  "hasCurrentStatus editedDb ''o1'' Published
   \<and> readManyCWUOpportunities exampleDeps editedDb anonymous = Valid []
   \<and> readManyCWUOpportunities exampleDeps editedDb adminSession
       = Valid [publishedSlim (Some userG1) None]
   \<and> map_Validation (map_option r_status)
        (readOneCWUOpportunity exampleDeps editedDb ''o1'' anonymous)
       = Valid (Some (Some Published))"
proof -
  have "hasCurrentStatus editedDb ''o1'' Published"
    by (simp add: spec_defs example_defs)
  moreover have "readManyCWUOpportunities exampleDeps editedDb anonymous = Valid []"
    by (simp add: read_defs example_defs)
  moreover have "readManyCWUOpportunities exampleDeps editedDb adminSession
       = Valid [publishedSlim (Some userG1) None]"
    by (simp add: read_defs example_defs)
  moreover have "map_Validation (map_option r_status)
        (readOneCWUOpportunity exampleDeps editedDb ''o1'' anonymous)
       = Valid (Some (Some Published))"
    by (simp add: read_defs example_defs)
  ultimately show ?thesis by simp
qed

lemmas into_defs = intoVersions_def intoStatuses_def intoAttachments_def intoAddenda_def
  intoProposalStatuses_def

subsection \<open>What every write preserves\<close>

text \<open>
  A relation between databases that is reflexive and transitive and that every insert of
  the write operations respects holds between the database before an operation and the
  database after it, whatever fails. It is stated for the two states of a transaction at
  once: the committed rows and the rows in view.
\<close>

lemma insertRow_rel:
  assumes "\<And>db. R db (ins db)"
      and "\<And>x y z. R x y \<Longrightarrow> R y z \<Longrightarrow> R x z"
      and "insertRow env tr ins t = (t1, r)"
      and "R a (committed t) \<and> R a (view t)"
  shows "R a (committed t1) \<and> R a (view t1)"
  using assms(3,4) assms(2)[OF _ assms(1)]
  by (auto simp: insertRow_def split: if_splits)

lemma createAttachments_rel:
  assumes i: "\<And>row db. R db (intoAttachments row db)"
      and tr: "\<And>x y z. R x y \<Longrightarrow> R y z \<Longrightarrow> R x z"
  shows "createCWUOpportunityAttachments env v fs t = (t1, r) \<Longrightarrow>
         R a (committed t) \<and> R a (view t) \<Longrightarrow> R a (committed t1) \<and> R a (view t1)"
proof (induction fs arbitrary: t)
  case Nil
  then show ?case by simp
next
  case (Cons f fs)
  let ?ins = "intoAttachments \<lparr>att_opportunityVersion = v, att_file = file_id f\<rparr>"
  obtain t' r' where s: "insertRow env True ?ins t = (t', r')"
    by (cases "insertRow env True ?ins t")
  note k = insertRow_rel[of R ?ins, OF i tr s Cons.prems(2)]
  show ?case
  proof (cases r')
    case (Inl e)
    with Cons.prems s k show ?thesis by simp
  next
    case (Inr u)
    with Cons.prems s have "createCWUOpportunityAttachments env v fs t' = (t1, r)" by simp
    from Cons.IH[OF this k] show ?thesis .
  qed
qed

lemma closeProposals_rel:
  assumes i: "\<And>row db. R db (intoProposalStatuses row db)"
      and tr: "\<And>x y z. R x y \<Longrightarrow> R y z \<Longrightarrow> R x z"
  shows "closeProposals env ps t = (t1, r) \<Longrightarrow>
         R a (committed t) \<and> R a (view t) \<Longrightarrow> R a (committed t1) \<and> R a (view t1)"
proof (induction ps arbitrary: t)
  case Nil
  then show ?case by simp
next
  case (Cons p ps)
  let ?ins = "intoProposalStatuses \<lparr>pst_id = generateUuid env (stmt t), pst_proposal = p,
                 pst_createdAt = now env, pst_status = Some UnderReview, pst_note = []\<rparr>"
  obtain t' r' where s: "insertRow env True ?ins t = (t', r')"
    by (cases "insertRow env True ?ins t")
  note k = insertRow_rel[of R ?ins, OF i tr s Cons.prems(2)]
  show ?case
  proof (cases r')
    case (Inl e)
    with Cons.prems s k show ?thesis by simp
  next
    case (Inr u)
    with Cons.prems s have "closeProposals env ps t' = (t1, r)" by simp
    from Cons.IH[OF this k] show ?thesis .
  qed
qed

lemma closeOpportunities_rel:
  assumes i: "\<And>row db. R db (intoStatuses row db)"
      and j: "\<And>row db. R db (intoProposalStatuses row db)"
      and tr: "\<And>x y z. R x y \<Longrightarrow> R y z \<Longrightarrow> R x z"
  shows "closeOpportunities env ids t = (t1, r) \<Longrightarrow>
         R a (committed t) \<and> R a (view t) \<Longrightarrow> R a (committed t1) \<and> R a (view t1)"
proof (induction ids arbitrary: t)
  case Nil
  then show ?case by simp
next
  case (Cons oid ids)
  let ?ins = "intoStatuses \<lparr>hist_id = generateUuid env (stmt t), hist_opportunity = oid,
                 hist_createdAt = now env, hist_createdBy = None,
                 hist_status = Some Evaluation, hist_event = None,
                 hist_note = ''This opportunity has closed.''\<rparr>"
  obtain t' r' where s: "insertRow env True ?ins t = (t', r')"
    by (cases "insertRow env True ?ins t")
  note k = insertRow_rel[of R ?ins, OF i tr s Cons.prems(2)]
  show ?case
  proof (cases r')
    case (Inl e)
    with Cons.prems s k show ?thesis by simp
  next
    case (Inr u)
    obtain t2 r2 where p: "closeProposals env (submittedProposalsQuery (view t') oid) t' = (t2, r2)"
      by (cases "closeProposals env (submittedProposalsQuery (view t') oid) t'")
    note k2 = closeProposals_rel[of R, OF j tr p k]
    show ?thesis
    proof (cases r2)
      case (Inl e)
      with Cons.prems s Inr p k2 show ?thesis by simp
    next
      case (Inr u2)
      with Cons.prems s \<open>r' = Inr u\<close> p have "closeOpportunities env ids t2 = (t1, r)" by simp
      from Cons.IH[OF this k2] show ?thesis .
    qed
  qed
qed

lemma transaction_rel:
  assumes "\<And>t0 t1 r. body t0 = (t1, r) \<Longrightarrow> R db (committed t0) \<and> R db (view t0) \<Longrightarrow>
             R db (committed t1) \<and> R db (view t1)"
      and "R db db"
  shows "R db (fst (transaction env body db))"
proof -
  obtain t1 r where b: "body \<lparr>committed = db, view = db, stmt = 0\<rparr> = (t1, r)"
    by (cases "body \<lparr>committed = db, view = db, stmt = 0\<rparr>")
  from assms(1)[OF b] assms(2) b show ?thesis
    by (auto simp: transaction_def split: sum.splits)
qed

lemma updateVersionBody_rel:
  assumes v: "\<And>row db. R db (intoVersions row db)"
      and f: "\<And>row db. R db (intoAttachments row db)"
      and h: "\<And>row db. R db (intoStatuses row db)"
      and tr: "\<And>x y z. R x y \<Longrightarrow> R y z \<Longrightarrow> R x z"
      and b: "updateVersionBody env opportunity session t0 = (t1, r)"
      and s: "R a (committed t0) \<and> R a (view t0)"
  shows "R a (committed t1) \<and> R a (view t1)"
proof -
  let ?v = "\<lparr>ver_id = generateUuid env (stmt t0), ver_opportunity = upd_id opportunity,
             ver_createdAt = now env, ver_createdBy = user_id (auth_user session),
             ver_content = upd_content opportunity\<rparr>"
  let ?fs = "case upd_attachments opportunity of None \<Rightarrow> [] | Some fs \<Rightarrow> fs"
  obtain ta ra where a: "insertRow env True (intoVersions ?v) t0 = (ta, ra)"
    by (cases "insertRow env True (intoVersions ?v) t0")
  obtain tb rb where bb: "createCWUOpportunityAttachments env (ver_id ?v) ?fs ta = (tb, rb)"
    by (cases "createCWUOpportunityAttachments env (ver_id ?v) ?fs ta")
  let ?e = "\<lparr>hist_id = generateUuid env (stmt tb), hist_opportunity = upd_id opportunity,
             hist_createdAt = now env, hist_createdBy = Some (user_id (auth_user session)),
             hist_status = None, hist_event = Some Edited, hist_note = []\<rparr>"
  obtain tc rc where c: "insertRow env False (intoStatuses ?e) tb = (tc, rc)"
    by (cases "insertRow env False (intoStatuses ?e) tb")
  note ka = insertRow_rel[of R "intoVersions ?v", OF v tr a s]
  note kb = createAttachments_rel[of R, OF f tr bb ka]
  note kc = insertRow_rel[of R "intoStatuses ?e", OF h tr c kb]
  from b a bb c have "t1 = ta \<or> t1 = tb \<or> t1 = tc"
    by (auto simp: updateVersionBody_def Let_def split: sum.splits)
  with ka kb kc show ?thesis by auto
qed

lemma addAddendumBody_rel:
  assumes d: "\<And>row db. R db (intoAddenda row db)"
      and h: "\<And>row db. R db (intoStatuses row db)"
      and tr: "\<And>x y z. R x y \<Longrightarrow> R y z \<Longrightarrow> R x z"
      and b: "addAddendumBody env i txt session t0 = (t1, r)"
      and s: "R a (committed t0) \<and> R a (view t0)"
  shows "R a (committed t1) \<and> R a (view t1)"
proof -
  let ?a = "\<lparr>add_id = generateUuid env (stmt t0), add_opportunity = i, add_description = txt,
             add_createdBy = Some (user_id (auth_user session)), add_createdAt = now env\<rparr>"
  obtain ta ra where a: "insertRow env True (intoAddenda ?a) t0 = (ta, ra)"
    by (cases "insertRow env True (intoAddenda ?a) t0")
  let ?e = "\<lparr>hist_id = generateUuid env (stmt ta), hist_opportunity = i,
             hist_createdAt = now env, hist_createdBy = Some (user_id (auth_user session)),
             hist_status = None, hist_event = Some AddendumAdded, hist_note = []\<rparr>"
  obtain tb rb where bb: "insertRow env True (intoStatuses ?e) ta = (tb, rb)"
    by (cases "insertRow env True (intoStatuses ?e) ta")
  note ka = insertRow_rel[of R "intoAddenda ?a", OF d tr a s]
  note kb = insertRow_rel[of R "intoStatuses ?e", OF h tr bb ka]
  from b a bb have "t1 = ta \<or> t1 = tb"
    by (auto simp: addAddendumBody_def split: sum.splits)
  with ka kb show ?thesis by auto
qed

lemma closeBody_rel:
  assumes h: "\<And>row db. R db (intoStatuses row db)"
      and p: "\<And>row db. R db (intoProposalStatuses row db)"
      and tr: "\<And>x y z. R x y \<Longrightarrow> R y z \<Longrightarrow> R x z"
      and b: "closeBody env t0 = (t1, r)"
      and s: "R a (committed t0) \<and> R a (view t0)"
  shows "R a (committed t1) \<and> R a (view t1)"
proof -
  obtain ta ra where a:
    "closeOpportunities env (lapsedOpportunitiesQuery (now env) (view t0)) t0 = (ta, ra)"
    by (cases "closeOpportunities env (lapsedOpportunitiesQuery (now env) (view t0)) t0")
  from b a have "t1 = ta" by (auto simp: closeBody_def Let_def split: sum.splits)
  with closeOpportunities_rel[of R, OF h p tr a s] show ?thesis by simp
qed

text \<open>The four write operations, for such a relation.\<close>

lemma writes_rel:
  assumes rf: "\<And>x. R x x"
      and tr: "\<And>x y z. R x y \<Longrightarrow> R y z \<Longrightarrow> R x z"
      and v: "\<And>row db. R db (intoVersions row db)"
      and f: "\<And>row db. R db (intoAttachments row db)"
      and h: "\<And>row db. R db (intoStatuses row db)"
      and d: "\<And>row db. R db (intoAddenda row db)"
      and p: "\<And>row db. R db (intoProposalStatuses row db)"
  shows "R db (fst (updateCWUOpportunityVersion deps env db opportunity session))"
    and "R db (fst (updateCWUOpportunityStatus deps env db i status note session))"
    and "R db (fst (addCWUOpportunityAddendum deps env db i addendumText session))"
    and "R db (fst (closeCWUOpportunities env db))"
proof -
  have "R db (fst (transaction env (updateVersionBody env opportunity session) db))"
    by (rule transaction_rel[of _ R, OF updateVersionBody_rel[of R, OF v f h tr] rf])
  then show "R db (fst (updateCWUOpportunityVersion deps env db opportunity session))"
    by (auto simp: updateCWUOpportunityVersion_def split: prod.splits sum.splits)
  show "R db (fst (updateCWUOpportunityStatus deps env db i status note session))"
    using rf h by (simp add: updateCWUOpportunityStatus_def Let_def)
  have "R db (fst (transaction env (addAddendumBody env i addendumText session) db))"
    by (rule transaction_rel[of _ R, OF addAddendumBody_rel[of R, OF d h tr] rf])
  then show "R db (fst (addCWUOpportunityAddendum deps env db i addendumText session))"
    by (auto simp: addCWUOpportunityAddendum_def split: prod.splits sum.splits)
  have "R db (fst (transaction env (closeBody env) db))"
    by (rule transaction_rel[of _ R, OF closeBody_rel[of R, OF h p tr] rf])
  then show "R db (fst (closeCWUOpportunities env db))"
    by (auto simp: closeCWUOpportunities_def split: prod.splits)
qed

lemma sameRoots_writes:
  shows "sameRoots db (fst (updateCWUOpportunityVersion deps env db opportunity session))"
    and "sameRoots db (fst (updateCWUOpportunityStatus deps env db i status note session))"
    and "sameRoots db (fst (addCWUOpportunityAddendum deps env db i addendumText session))"
    and "sameRoots db (fst (closeCWUOpportunities env db))"
  by (rule writes_rel[of sameRoots]; simp add: sameRoots_def into_defs)+

lemma extends_writes:
  shows "extends db (fst (updateCWUOpportunityVersion deps env db opportunity session))"
    and "extends db (fst (updateCWUOpportunityStatus deps env db i status note session))"
    and "extends db (fst (addCWUOpportunityAddendum deps env db i addendumText session))"
    and "extends db (fst (closeCWUOpportunities env db))"
  by (rule writes_rel[of extends]; auto simp: extends_def into_defs intro: prefix_order.trans)+

text \<open>
  Claim C5. The root record of an opportunity is never changed after its creation:
  \<^verbatim>\<open>updateCWUOpportunityVersion\<close>, \<^verbatim>\<open>updateCWUOpportunityStatus\<close>,
  \<^verbatim>\<open>addCWUOpportunityAddendum\<close> and \<^verbatim>\<open>closeCWUOpportunities\<close> leave the table of the root
  records as it is, whether or not a statement fails. \<^verbatim>\<open>deleteCWUOpportunity\<close> leaves it as
  it is or removes the rows with the given id, and changes no row.
\<close>

theorem root_records_unchanged:
  "cwuOpportunities (fst (updateCWUOpportunityVersion deps env db opportunity session))
     = cwuOpportunities db
   \<and> cwuOpportunities (fst (updateCWUOpportunityStatus deps env db i status note session))
     = cwuOpportunities db
   \<and> cwuOpportunities (fst (addCWUOpportunityAddendum deps env db i addendumText session))
     = cwuOpportunities db
   \<and> cwuOpportunities (fst (closeCWUOpportunities env db)) = cwuOpportunities db
   \<and> cwuOpportunities (fst (deleteCWUOpportunity deps env db i))
     \<in> {cwuOpportunities db, [row \<leftarrow> cwuOpportunities db. opp_id row \<noteq> i]}"
proof -
  have "cwuOpportunities (fst (deleteCWUOpportunity deps env db i))
     \<in> {cwuOpportunities db, [row \<leftarrow> cwuOpportunities db. opp_id row \<noteq> i]}"
    by (simp add: deleteCWUOpportunity_def cascadeDelete_def Let_def split: option.splits)
  then show ?thesis
    using sameRoots_writes by (simp add: sameRoots_def)
qed

subsection \<open>The writes when no statement fails\<close>

lemma insertRow_ok:
  "\<not> fails env (stmt t) \<Longrightarrow>
     insertRow env True ins t = (t\<lparr>view := ins (view t), stmt := Suc (stmt t)\<rparr>, Inr ())"
  "\<not> fails env (stmt t) \<Longrightarrow>
     insertRow env False ins t =
       (t\<lparr>committed := ins (committed t), view := ins (view t), stmt := Suc (stmt t)\<rparr>, Inr ())"
  by (simp_all add: insertRow_def)

lemma createAttachments_ok:
  assumes "\<forall>k. \<not> fails env k"
  shows "createCWUOpportunityAttachments env v fs t =
           (t\<lparr>view := (view t)\<lparr>cwuOpportunityAttachments :=
                   cwuOpportunityAttachments (view t)
                     @ map (\<lambda>f. \<lparr>att_opportunityVersion = v, att_file = file_id f\<rparr>) fs\<rparr>,
               stmt := stmt t + length fs\<rparr>, Inr ())"
proof (induction fs arbitrary: t)
  case Nil
  show ?case by simp
next
  case (Cons f fs)
  show ?case
    using assms by (simp add: insertRow_ok Cons.IH intoAttachments_def)
qed

lemma updateVersion_ok:
  assumes "\<forall>k. \<not> fails env k"
  shows "fst (updateCWUOpportunityVersion deps env db opportunity session) =
           db\<lparr>cwuOpportunityVersions := cwuOpportunityVersions db @
                  [\<lparr>ver_id = generateUuid env 0, ver_opportunity = upd_id opportunity,
                    ver_createdAt = now env, ver_createdBy = user_id (auth_user session),
                    ver_content = upd_content opportunity\<rparr>],
               cwuOpportunityAttachments := cwuOpportunityAttachments db @
                  map (\<lambda>f. \<lparr>att_opportunityVersion = generateUuid env 0, att_file = file_id f\<rparr>)
                      (case upd_attachments opportunity of None \<Rightarrow> [] | Some fs \<Rightarrow> fs),
               cwuOpportunityStatuses := cwuOpportunityStatuses db @
                  [\<lparr>hist_id = generateUuid env
                       (Suc (length (case upd_attachments opportunity of None \<Rightarrow> [] | Some fs \<Rightarrow> fs))),
                    hist_opportunity = upd_id opportunity, hist_createdAt = now env,
                    hist_createdBy = Some (user_id (auth_user session)), hist_status = None,
                    hist_event = Some Edited, hist_note = []\<rparr>]\<rparr>"
  using assms
  by (simp add: updateCWUOpportunityVersion_def transaction_def updateVersionBody_def
                insertRow_ok createAttachments_ok[OF assms] intoVersions_def intoStatuses_def
                Let_def split: sum.splits)

lemma updateStatus_ok:
  assumes "\<forall>k. \<not> fails env k"
  shows "fst (updateCWUOpportunityStatus deps env db i status note session) =
           db\<lparr>cwuOpportunityStatuses := cwuOpportunityStatuses db @
                  [\<lparr>hist_id = generateUuid env 0, hist_opportunity = i,
                    hist_createdAt = now env,
                    hist_createdBy = Some (user_id (auth_user session)),
                    hist_status = Some status, hist_event = None, hist_note = note\<rparr>]\<rparr>"
  using assms by (simp add: updateCWUOpportunityStatus_def intoStatuses_def Let_def)

lemma addAddendum_ok:
  assumes "\<forall>k. \<not> fails env k"
  shows "fst (addCWUOpportunityAddendum deps env db i addendumText session) =
           db\<lparr>cwuOpportunityAddenda := cwuOpportunityAddenda db @
                  [\<lparr>add_id = generateUuid env 0, add_opportunity = i,
                    add_description = addendumText,
                    add_createdBy = Some (user_id (auth_user session)),
                    add_createdAt = now env\<rparr>],
               cwuOpportunityStatuses := cwuOpportunityStatuses db @
                  [\<lparr>hist_id = generateUuid env 1, hist_opportunity = i,
                    hist_createdAt = now env,
                    hist_createdBy = Some (user_id (auth_user session)), hist_status = None,
                    hist_event = Some AddendumAdded, hist_note = []\<rparr>]\<rparr>"
  using assms
  by (simp add: addCWUOpportunityAddendum_def transaction_def addAddendumBody_def
                insertRow_ok intoAddenda_def intoStatuses_def split: sum.splits)


lemmas write_defs = updateCWUOpportunityVersion_def updateCWUOpportunityStatus_def
  addCWUOpportunityAddendum_def transaction_def updateVersionBody_def addAddendumBody_def
  insertRow_def intoVersions_def intoStatuses_def intoAttachments_def intoAddenda_def
  intoProposalStatuses_def readBack_def sessionOf_def exampleEnv_def failingAt_def
  exampleUpdate_def closeCWUOpportunities_def closeBody_def Let_def

text \<open>
  Claim C4. Every write to an opportunity appends and does not mutate. When no statement
  fails, \<^verbatim>\<open>updateCWUOpportunityVersion\<close> leaves the database with one new version row,
  one attachment row for each attachment and one new \<^verbatim>\<open>Edited\<close> event row;
  \<^verbatim>\<open>updateCWUOpportunityStatus\<close> with one new status row that has the given status and
  note; \<^verbatim>\<open>addCWUOpportunityAddendum\<close> with one new addendum row and one new
  \<^verbatim>\<open>AddendumAdded\<close> event row; and with nothing else changed. Whatever fails, the
  version, history, attachment and addendum tables afterwards are the tables before with
  rows appended.
\<close>

theorem writes_append_rows:
  "((\<forall>k. \<not> fails env k) \<longrightarrow>
      fst (updateCWUOpportunityVersion deps env db opportunity session) =
           db\<lparr>cwuOpportunityVersions := cwuOpportunityVersions db @
                  [\<lparr>ver_id = generateUuid env 0, ver_opportunity = upd_id opportunity,
                    ver_createdAt = now env, ver_createdBy = user_id (auth_user session),
                    ver_content = upd_content opportunity\<rparr>],
               cwuOpportunityAttachments := cwuOpportunityAttachments db @
                  map (\<lambda>f. \<lparr>att_opportunityVersion = generateUuid env 0, att_file = file_id f\<rparr>)
                      (case upd_attachments opportunity of None \<Rightarrow> [] | Some fs \<Rightarrow> fs),
               cwuOpportunityStatuses := cwuOpportunityStatuses db @
                  [\<lparr>hist_id = generateUuid env
                       (Suc (length (case upd_attachments opportunity of None \<Rightarrow> [] | Some fs \<Rightarrow> fs))),
                    hist_opportunity = upd_id opportunity, hist_createdAt = now env,
                    hist_createdBy = Some (user_id (auth_user session)), hist_status = None,
                    hist_event = Some Edited, hist_note = []\<rparr>]\<rparr>
    \<and> fst (updateCWUOpportunityStatus deps env db i status note session) =
           db\<lparr>cwuOpportunityStatuses := cwuOpportunityStatuses db @
                  [\<lparr>hist_id = generateUuid env 0, hist_opportunity = i,
                    hist_createdAt = now env,
                    hist_createdBy = Some (user_id (auth_user session)),
                    hist_status = Some status, hist_event = None, hist_note = note\<rparr>]\<rparr>
    \<and> fst (addCWUOpportunityAddendum deps env db i addendumText session) =
           db\<lparr>cwuOpportunityAddenda := cwuOpportunityAddenda db @
                  [\<lparr>add_id = generateUuid env 0, add_opportunity = i,
                    add_description = addendumText,
                    add_createdBy = Some (user_id (auth_user session)),
                    add_createdAt = now env\<rparr>],
               cwuOpportunityStatuses := cwuOpportunityStatuses db @
                  [\<lparr>hist_id = generateUuid env 1, hist_opportunity = i,
                    hist_createdAt = now env,
                    hist_createdBy = Some (user_id (auth_user session)), hist_status = None,
                    hist_event = Some AddendumAdded, hist_note = []\<rparr>]\<rparr>)
   \<and> extends db (fst (updateCWUOpportunityVersion deps env db opportunity session))
   \<and> extends db (fst (updateCWUOpportunityStatus deps env db i status note session))
   \<and> extends db (fst (addCWUOpportunityAddendum deps env db i addendumText session))"
proof (intro conjI impI)
  assume nf: "\<forall>k. \<not> fails env k"
  show "fst (updateCWUOpportunityVersion deps env db opportunity session) =
           db\<lparr>cwuOpportunityVersions := cwuOpportunityVersions db @
                  [\<lparr>ver_id = generateUuid env 0, ver_opportunity = upd_id opportunity,
                    ver_createdAt = now env, ver_createdBy = user_id (auth_user session),
                    ver_content = upd_content opportunity\<rparr>],
               cwuOpportunityAttachments := cwuOpportunityAttachments db @
                  map (\<lambda>f. \<lparr>att_opportunityVersion = generateUuid env 0, att_file = file_id f\<rparr>)
                      (case upd_attachments opportunity of None \<Rightarrow> [] | Some fs \<Rightarrow> fs),
               cwuOpportunityStatuses := cwuOpportunityStatuses db @
                  [\<lparr>hist_id = generateUuid env
                       (Suc (length (case upd_attachments opportunity of None \<Rightarrow> [] | Some fs \<Rightarrow> fs))),
                    hist_opportunity = upd_id opportunity, hist_createdAt = now env,
                    hist_createdBy = Some (user_id (auth_user session)), hist_status = None,
                    hist_event = Some Edited, hist_note = []\<rparr>]\<rparr>"
    by (rule updateVersion_ok[OF nf])
  show "fst (updateCWUOpportunityStatus deps env db i status note session) =
           db\<lparr>cwuOpportunityStatuses := cwuOpportunityStatuses db @
                  [\<lparr>hist_id = generateUuid env 0, hist_opportunity = i,
                    hist_createdAt = now env,
                    hist_createdBy = Some (user_id (auth_user session)),
                    hist_status = Some status, hist_event = None, hist_note = note\<rparr>]\<rparr>"
    by (rule updateStatus_ok[OF nf])
  show "fst (addCWUOpportunityAddendum deps env db i addendumText session) =
           db\<lparr>cwuOpportunityAddenda := cwuOpportunityAddenda db @
                  [\<lparr>add_id = generateUuid env 0, add_opportunity = i,
                    add_description = addendumText,
                    add_createdBy = Some (user_id (auth_user session)),
                    add_createdAt = now env\<rparr>],
               cwuOpportunityStatuses := cwuOpportunityStatuses db @
                  [\<lparr>hist_id = generateUuid env 1, hist_opportunity = i,
                    hist_createdAt = now env,
                    hist_createdBy = Some (user_id (auth_user session)), hist_status = None,
                    hist_event = Some AddendumAdded, hist_note = []\<rparr>]\<rparr>"
    by (rule addAddendum_ok[OF nf])
next
  show "extends db (fst (updateCWUOpportunityVersion deps env db opportunity session))"
    by (rule extends_writes(1))
  show "extends db (fst (updateCWUOpportunityStatus deps env db i status note session))"
    by (rule extends_writes(2))
  show "extends db (fst (addCWUOpportunityAddendum deps env db i addendumText session))"
    by (rule extends_writes(3))
qed

theorem writes_append_rows_witness:
  "(\<forall>k. \<not> fails exampleEnv k)
   \<and> cwuOpportunityVersions
       (fst (updateCWUOpportunityVersion exampleDeps exampleEnv publishedDb exampleUpdate govSession))
     = cwuOpportunityVersions publishedDb @
         [\<lparr>ver_id = ''n'', ver_opportunity = ''o1'', ver_createdAt = 200, ver_createdBy = ''g1'',
           ver_content = exampleContent\<lparr>title := ''Fix the portal now''\<rparr>\<rparr>]
   \<and> cwuOpportunityStatuses
       (fst (updateCWUOpportunityVersion exampleDeps exampleEnv publishedDb exampleUpdate govSession))
     = cwuOpportunityStatuses publishedDb @
         [\<lparr>hist_id = ''nn'', hist_opportunity = ''o1'', hist_createdAt = 200,
           hist_createdBy = Some ''g1'', hist_status = None, hist_event = Some Edited,
           hist_note = []\<rparr>]
   \<and> cwuOpportunityStatuses
       (fst (updateCWUOpportunityStatus exampleDeps exampleEnv publishedDb ''o1'' Awarded ''done'' govSession))
     = cwuOpportunityStatuses publishedDb @
         [\<lparr>hist_id = ''n'', hist_opportunity = ''o1'', hist_createdAt = 200,
           hist_createdBy = Some ''g1'', hist_status = Some Awarded, hist_event = None,
           hist_note = ''done''\<rparr>]
   \<and> cwuOpportunityAddenda
       (fst (addCWUOpportunityAddendum exampleDeps exampleEnv publishedDb ''o1'' ''More time'' govSession))
     = cwuOpportunityAddenda publishedDb @
         [\<lparr>add_id = ''n'', add_opportunity = ''o1'', add_description = ''More time'',
           add_createdBy = Some ''g1'', add_createdAt = 200\<rparr>]
   \<and> cwuOpportunityStatuses
       (fst (addCWUOpportunityAddendum exampleDeps exampleEnv publishedDb ''o1'' ''More time'' govSession))
     = cwuOpportunityStatuses publishedDb @
         [\<lparr>hist_id = ''nn'', hist_opportunity = ''o1'', hist_createdAt = 200,
           hist_createdBy = Some ''g1'', hist_status = None, hist_event = Some AddendumAdded,
           hist_note = []\<rparr>]"
proof -
  have nf: "\<forall>k. \<not> fails exampleEnv k" by (simp add: exampleEnv_def)
  have g: "generateUuid exampleEnv 0 = ''n''" "generateUuid exampleEnv 1 = ''nn''"
          "now exampleEnv = 200" "upd_id exampleUpdate = ''o1''"
          "upd_attachments exampleUpdate = None"
          "upd_content exampleUpdate = exampleContent\<lparr>title := ''Fix the portal now''\<rparr>"
          "user_id (auth_user govSession) = ''g1''"
    by (simp_all add: exampleEnv_def exampleUpdate_def govSession_def exampleUser_def)
  note w = writes_append_rows
             [of exampleEnv exampleDeps publishedDb exampleUpdate govSession]
  from w[of "''o1''" Awarded "''done''" "''More time''"] nf g show ?thesis
    by simp
qed

text \<open>
  Claim C8. In \<^verbatim>\<open>updateCWUOpportunityVersion\<close> the insert of the \<^verbatim>\<open>Edited\<close> record is
  not made with \<^verbatim>\<open>.transacting(trx)\<close>, unlike the insert of the \<^verbatim>\<open>AddendumAdded\<close>
  record in \<^verbatim>\<open>addCWUOpportunityAddendum\<close>. When the version insert or the insert of the
  \<^verbatim>\<open>Edited\<close> record fails, the database is as before. When the commit fails, the version
  is rolled back, the result is invalid, and the \<^verbatim>\<open>Edited\<close> record persists; the failed
  commit of \<^verbatim>\<open>addCWUOpportunityAddendum\<close> leaves nothing.
\<close>

theorem updateVersion_failed_commit_keeps_edited_row:
  "updateCWUOpportunityVersion exampleDeps (failingAt 0) publishedDb exampleUpdate govSession
     = (publishedDb, Invalid)
   \<and> updateCWUOpportunityVersion exampleDeps (failingAt 1) publishedDb exampleUpdate govSession
     = (publishedDb, Invalid)
   \<and> updateCWUOpportunityVersion exampleDeps (failingAt 2) publishedDb exampleUpdate govSession
     = (intoStatuses (editedRow ''nn'' ''o1'' 200) publishedDb, Invalid)
   \<and> addCWUOpportunityAddendum exampleDeps (failingAt 2) publishedDb ''o1'' ''More time'' govSession
     = (publishedDb, Invalid)"
  by (simp add: write_defs tryDb_def example_defs)

subsection \<open>The sweep of the example data\<close>






subsection \<open>The sweep\<close>




















subsection \<open>Counting the rows of the sweep's query\<close>

















lemma sweep_count:
  "length [opp \<leftarrow> cwuOpportunities sweepDb. isLapsed 200 sweepDb (opp_id opp)] = 2"
  by (simp add: isLapsed_def isLatestStatusRow_def isLatestVersion_def sweepDb_def
                example_defs)




end
